theory Spec2Isabelle
  imports Main
begin

section \<open>JavaScript values\<close>

text \<open>
  The scripts handle the parsed JSON bodies of the remote service's responses. A value is
  one of JSON's, or \<open>undefined\<close> (what reading an absent property gives). Numbers are
  integers here: no script computes with a number of a response. An object is the list of
  its properties in insertion order.
\<close>

datatype jsval =
    JUndefined
  | JNull
  | JBool bool
  | JNum int
  | JStr string
  | JArr "jsval list"
  | JObj "(string \<times> jsval) list"

text \<open>
  What a script can throw: a \<open>TypeError\<close> of the language (a property read on
  \<open>undefined\<close> or \<open>null\<close>, a call of something that is no function, an iteration
  over something not iterable), the rejection of a remote call with its message, and the
  failure to read or parse a payload file.
\<close>

datatype js_error = TypeError | Rejected string | PayloadError string

type_synonym 'a result = "js_error + 'a"

definition bindE :: "'a result \<Rightarrow> ('a \<Rightarrow> 'b result) \<Rightarrow> 'b result" where
  "bindE m f = (case m of Inl e \<Rightarrow> Inl e | Inr x \<Rightarrow> f x)"

text \<open>\<open>xs.map(f)\<close> for an \<open>f\<close> that can throw: the first throw ends the map.\<close>

fun mapM :: "('a \<Rightarrow> 'b result) \<Rightarrow> 'a list \<Rightarrow> 'b list result" where
  "mapM f [] = Inr []"
| "mapM f (x # xs) =
     (case f x of
        Inl e \<Rightarrow> Inl e
      | Inr y \<Rightarrow> (case mapM f xs of Inl e \<Rightarrow> Inl e | Inr ys \<Rightarrow> Inr (y # ys)))"

fun nullish :: "jsval \<Rightarrow> bool" where
  "nullish JUndefined = True"
| "nullish JNull = True"
| "nullish _ = False"

text \<open>Truthiness, as \<open>||\<close>, \<open>!\<close> and \<open>if\<close> read a value.\<close>

fun truthy :: "jsval \<Rightarrow> bool" where
  "truthy JUndefined = False"
| "truthy JNull = False"
| "truthy (JBool b) = b"
| "truthy (JNum n) = (n \<noteq> 0)"
| "truthy (JStr s) = (s \<noteq> [])"
| "truthy (JArr _) = True"
| "truthy (JObj _) = True"

definition jor :: "jsval \<Rightarrow> jsval \<Rightarrow> jsval" where
  "jor a b = (if truthy a then a else b)"

text \<open>
  \<open>v.k\<close> on a value that is neither \<open>undefined\<close> nor \<open>null\<close>, for the property
  names the scripts read: only an object can have one. (Of these names only \<open>length\<close>
  and \<open>values\<close> are built-in properties of a string or an array; where they are read,
  in \<open>aggregate\<close>, \<open>length_of\<close> and \<open>values_or_empty\<close> below, the cases are written
  out.)
\<close>

fun get :: "jsval \<Rightarrow> string \<Rightarrow> jsval" where
  "get (JObj kvs) k = (case map_of kvs k of Some v \<Rightarrow> v | None \<Rightarrow> JUndefined)"
| "get _ k = JUndefined"

text \<open>\<open>v?.k\<close>: \<open>undefined\<close> when \<open>v\<close> is \<open>undefined\<close> or \<open>null\<close>.\<close>

definition optget :: "jsval \<Rightarrow> string \<Rightarrow> jsval" where
  "optget v k = (if nullish v then JUndefined else get v k)"

text \<open>\<open>v.k\<close> where \<open>v\<close> may be anything: a \<open>TypeError\<close> on \<open>undefined\<close> and \<open>null\<close>.\<close>

definition getE :: "jsval \<Rightarrow> string \<Rightarrow> jsval result" where
  "getE v k = (if nullish v then Inl TypeError else Inr (get v k))"

section \<open>The mail script: helpers\<close>

text \<open>
  \<open>decodeBase64Url\<close>: the empty string for a falsy argument; otherwise \<open>-\<close> becomes
  \<open>+\<close> and \<open>_\<close> becomes \<open>/\<close>, and the platform decodes the result
  (\<open>Buffer.from(s, 'base64').toString('utf8')\<close>, the parameter \<open>b64\<close>). A truthy
  argument that is no string has no \<open>replace\<close> to call.
\<close>

definition url_to_std :: "char \<Rightarrow> char" where
  "url_to_std c = (if c = CHR ''-'' then CHR ''+'' else if c = CHR ''_'' then CHR ''/'' else c)"

definition decodeBase64Url :: "(string \<Rightarrow> string) \<Rightarrow> jsval \<Rightarrow> string result" where
  "decodeBase64Url b64 str =
     (if \<not> truthy str then Inr []
      else case str of JStr s \<Rightarrow> Inr (b64 (map url_to_std s)) | _ \<Rightarrow> Inl TypeError)"

text \<open>\<open>toLowerCase\<close>, on the ASCII letters (header names are ASCII).\<close>

definition lower_char :: "char \<Rightarrow> char" where
  "lower_char c =
     (case map_of (zip ''ABCDEFGHIJKLMNOPQRSTUVWXYZ'' ''abcdefghijklmnopqrstuvwxyz'') c of
        Some l \<Rightarrow> l
      | None \<Rightarrow> c)"

definition toLowerCase :: "string \<Rightarrow> string" where
  "toLowerCase s = map lower_char s"

text \<open>
  The callback of \<open>find\<close> in \<open>getHeader\<close> reads \<open>h.name.toLowerCase()\<close> of each
  element up to the first match: an element that is \<open>undefined\<close> or \<open>null\<close>, or whose
  \<open>name\<close> is no string, throws.
\<close>

fun find_header :: "jsval list \<Rightarrow> string \<Rightarrow> jsval option result" where
  "find_header [] name = Inr None"
| "find_header (h # hs) name =
     (if nullish h then Inl TypeError
      else case get h ''name'' of
             JStr s \<Rightarrow> if toLowerCase s = toLowerCase name then Inr (Some h)
                       else find_header hs name
           | _ \<Rightarrow> Inl TypeError)"

definition getHeader :: "jsval \<Rightarrow> string \<Rightarrow> jsval result" where
  "getHeader headers name =
     (case jor headers (JArr []) of
        JArr hs \<Rightarrow>
          (case find_header hs name of
             Inl e \<Rightarrow> Inl e
           | Inr None \<Rightarrow> Inr (JStr [])
           | Inr (Some h) \<Rightarrow> Inr (if truthy h then get h ''value'' else JStr []))
      | _ \<Rightarrow> Inl TypeError)"

text \<open>
  \<open>payload.mimeType === t && payload.body?.data\<close>, for a payload that is neither
  \<open>undefined\<close> nor \<open>null\<close>.
\<close>

definition has_data :: "jsval \<Rightarrow> string \<Rightarrow> bool" where
  "has_data payload t =
     (get payload ''mimeType'' = JStr t \<and> truthy (optget (get payload ''body'') ''data''))"

lemma size_get_parts [termination_simp]:
  "get v k = JArr ps \<Longrightarrow> size_list size ps < size v"
proof (cases v)
  case (JObj kvs)
  have "map_of kvs k = Some (JArr ps) \<Longrightarrow> size_list size ps < size_list (size_prod (\<lambda>_. 0) size) kvs"
    by (induction kvs) (auto split: if_splits)
  with JObj show "get v k = JArr ps \<Longrightarrow> ?thesis"
    by (auto split: option.splits)
qed auto

text \<open>
  \<open>extractBody\<close>, with the loop over \<open>payload.parts\<close> as \<open>extractParts\<close>. A truthy
  \<open>parts\<close> that is a string is iterated character by character, and each character
  gives the empty text; any other truthy \<open>parts\<close> but an array is not iterable.
\<close>

function extractBody :: "(string \<Rightarrow> string) \<Rightarrow> jsval \<Rightarrow> string result"
  and extractParts :: "(string \<Rightarrow> string) \<Rightarrow> jsval list \<Rightarrow> string result" where
  "extractBody b64 payload =
     (if nullish payload then Inl TypeError
      else if has_data payload ''text/plain''
      then decodeBase64Url b64 (get (get payload ''body'') ''data'')
      else case (if truthy (get payload ''parts'')
                 then (case get payload ''parts'' of
                         JArr ps \<Rightarrow> extractParts b64 ps
                       | JStr _ \<Rightarrow> Inr []
                       | _ \<Rightarrow> Inl TypeError)
                 else Inr []) of
             Inl e \<Rightarrow> Inl e
           | Inr text \<Rightarrow>
               if text \<noteq> [] then Inr text
               else if has_data payload ''text/html''
               then (case decodeBase64Url b64 (get (get payload ''body'') ''data'') of
                       Inl e \<Rightarrow> Inl e
                     | Inr html \<Rightarrow> Inr (''[HTML] '' @ take 2000 html))
               else Inr [])"
| "extractParts b64 [] = Inr []"
| "extractParts b64 (part # ps) =
     (case extractBody b64 part of
        Inl e \<Rightarrow> Inl e
      | Inr text \<Rightarrow> if text \<noteq> [] then Inr text else extractParts b64 ps)"
  by pat_completeness auto
termination
  by (relation "measure (\<lambda>x. case x of Inl (_, v) \<Rightarrow> size v | Inr (_, ps) \<Rightarrow> size_list size ps)")
     (auto dest: size_get_parts)

text \<open>\<open>formatMessage\<close>: the full view of one message.\<close>

definition formatMessage :: "(string \<Rightarrow> string) \<Rightarrow> jsval \<Rightarrow> jsval result" where
  "formatMessage b64 msg =
     (if nullish msg then Inl TypeError
      else let headers = jor (optget (get msg ''payload'') ''headers'') (JArr []) in
        bindE (getHeader headers ''From'') (\<lambda>from.
        bindE (getHeader headers ''To'') (\<lambda>to.
        bindE (getHeader headers ''Subject'') (\<lambda>subject.
        bindE (getHeader headers ''Date'') (\<lambda>date.
        bindE (extractBody b64 (get msg ''payload'')) (\<lambda>body.
          Inr (JObj [(''id'', get msg ''id''),
                     (''threadId'', get msg ''threadId''),
                     (''from'', from),
                     (''to'', to),
                     (''subject'', subject),
                     (''date'', date),
                     (''snippet'', get msg ''snippet''),
                     (''labels'', get msg ''labelIds''),
                     (''body'', JStr body)])))))))"

section \<open>The time-window helper\<close>

text \<open>
  A \<open>Date\<close> read in the process's local time zone: the calendar day, counted in days
  from 1970-01-01 (a Thursday), and the milliseconds since that day's midnight.
  \<open>getDay\<close> is 0 on a Sunday and 6 on a Saturday. \<open>d.setDate(d.getDate() + k)\<close> moves
  the date \<open>k\<close> calendar days on (past the end of a month too) and keeps the time of
  day. The scripts send \<open>d.toISOString()\<close>, the text of the same instant. A
  simplification: every local time of day exists on every day; where a daylight-saving
  change removes the time that \<open>setHours\<close> asks for, the language moves it.
\<close>

record datetime =
  day :: int
  msec :: nat

definition getDay :: "datetime \<Rightarrow> int" where
  "getDay d = (day d + 4) mod 7"

definition setDate_plus :: "int \<Rightarrow> datetime \<Rightarrow> datetime" where
  "setDate_plus k d = d\<lparr>day := day d + k\<rparr>"

definition setHours :: "nat \<Rightarrow> nat \<Rightarrow> nat \<Rightarrow> nat \<Rightarrow> datetime \<Rightarrow> datetime" where
  "setHours h m s ms d = d\<lparr>msec := ((h * 60 + m) * 60 + s) * 1000 + ms\<rparr>"

definition startOfDay :: "datetime \<Rightarrow> datetime" where
  "startOfDay now = setHours 0 0 0 0 now"

definition endOfDay :: "datetime \<Rightarrow> datetime" where
  "endOfDay now = setHours 23 59 59 999 now"

definition endOfWeek :: "datetime \<Rightarrow> datetime" where
  "endOfWeek now = setHours 23 59 59 999 (setDate_plus (7 - getDay now) now)"

section \<open>The remote service and a run of a script\<close>

text \<open>
  Each script first builds the authorised client (\<open>getAuth\<close>, which throws when one of
  the three credentials is missing) and then dispatches on its command line. What follows
  models the dispatch and the commands, with the client built.

  The methods of the client library the scripts call, and the deleting methods the same
  library offers on the same resources.
\<close>

datatype endpoint =
    Gmail_messages_list
  | Gmail_messages_get
  | Gmail_labels_list
  | Gmail_threads_list
  | Gmail_threads_get
  | Gmail_messages_delete
  | Gmail_messages_trash
  | Gmail_threads_delete
  | Gmail_labels_delete
  | Calendar_events_list
  | Calendar_events_get
  | Calendar_events_insert
  | Calendar_events_quickAdd
  | Calendar_events_patch
  | Calendar_calendarList_list
  | Calendar_events_delete
  | Calendar_calendars_delete
  | Calendar_calendarList_delete
  | Drive_files_list
  | Drive_files_delete
  | Sheets_spreadsheets_get
  | Sheets_values_get

fun deleting :: "endpoint \<Rightarrow> bool" where
  "deleting Gmail_messages_delete = True"
| "deleting Gmail_messages_trash = True"
| "deleting Gmail_threads_delete = True"
| "deleting Gmail_labels_delete = True"
| "deleting Calendar_events_delete = True"
| "deleting Calendar_calendars_delete = True"
| "deleting Calendar_calendarList_delete = True"
| "deleting Drive_files_delete = True"
| "deleting _ = False"

text \<open>
  A parameter of a request: a JavaScript value, the result of \<open>parseInt\<close> (\<open>None\<close>
  is \<open>NaN\<close>), or the ISO text of an instant.
\<close>

datatype pval = PVal jsval | PNum "int option" | PInstant datetime

type_synonym remote_call = "endpoint \<times> (string \<times> pval) list"

text \<open>
  The remote service: what each request settles to, a rejection or the \<open>data\<close> of
  the response.
\<close>

type_synonym remote = "remote_call \<Rightarrow> jsval result"

datatype line = Text string | Json jsval | ErrorLine js_error

text \<open>
  A command's run: the requests it issued, in order, the lines it printed to standard
  output (\<open>Json v\<close> is the line \<open>JSON.stringify(v, null, 2)\<close>), and how it ended.
  \<open>Pending\<close>: it waits for a request that never settles.
\<close>

datatype completion = Returned | Threw js_error | Pending

record run =
  calls :: "remote_call list"
  stdout :: "line list"
  ending :: completion

datatype status = Exit nat | Hang

record outcome =
  requests :: "remote_call list"
  printed :: "line list"
  stderr :: "line list"
  status :: status

text \<open>
  The \<open>try\<close>/\<open>catch\<close> around the dispatch: a command that returns lets the process
  end with status 0; a throw prints \<open>Error:\<close> and the message and exits with 1.
\<close>

definition top_level :: "run \<Rightarrow> outcome" where
  "top_level r =
     (case ending r of
        Returned \<Rightarrow> \<lparr>requests = calls r, printed = stdout r, stderr = [], status = Exit 0\<rparr>
      | Threw e \<Rightarrow>
          \<lparr>requests = calls r, printed = stdout r, stderr = [ErrorLine e], status = Exit 1\<rparr>
      | Pending \<Rightarrow> \<lparr>requests = calls r, printed = stdout r, stderr = [], status = Hang\<rparr>)"

text \<open>\<open>console.error\<close> of the usage lines, then \<open>process.exit(1)\<close>.\<close>

definition usage :: "string list \<Rightarrow> outcome" where
  "usage ls = \<lparr>requests = [], printed = [], stderr = map Text ls, status = Exit 1\<rparr>"

text \<open>
  The arguments after the script's name: \<open>args[i]\<close> is a string, or \<open>undefined\<close> past
  the end. A parameter's default stands in for \<open>undefined\<close> only.
\<close>

definition arg :: "string list \<Rightarrow> nat \<Rightarrow> jsval" where
  "arg args i = (if i < length args then JStr (args ! i) else JUndefined)"

definition dflt :: "jsval \<Rightarrow> jsval \<Rightarrow> jsval" where
  "dflt v d = (if v = JUndefined then d else v)"

fun join :: "string list \<Rightarrow> string" where
  "join [] = []"
| "join [a] = a"
| "join (a # b # rest) = a @ '' '' @ join (b # rest)"

text \<open>
  \<open>parseInt(v, 10)\<close>: leading white space, a sign, then the longest run of decimal
  digits; \<open>NaN\<close> when there is no digit. The scripts pass a string of the command line,
  the default 10, or \<open>undefined\<close> (whose text has no digit). Two simplifications: the
  white space skipped is the ASCII one (the language also skips the other Unicode
  spaces, such as U+00A0), and the result is the exact integer (the language rounds it
  to a double, so to the nearest representable number past \<open>2 ^ 53\<close>).
\<close>

definition is_space :: "char \<Rightarrow> bool" where
  "is_space c = (c \<in> set [CHR '' '', CHR 0x09, CHR 0x0A, CHR 0x0B, CHR 0x0C, CHR 0x0D])"

definition is_digit :: "char \<Rightarrow> bool" where
  "is_digit c = (48 \<le> (of_char c :: nat) \<and> (of_char c :: nat) \<le> 57)"

definition digits_value :: "string \<Rightarrow> int" where
  "digits_value ds = foldl (\<lambda>n c. 10 * n + (int (of_char c) - 48)) 0 ds"

definition parse_digits :: "string \<Rightarrow> int option" where
  "parse_digits s =
     (let ds = takeWhile is_digit s in if ds = [] then None else Some (digits_value ds))"

definition parseInt :: "jsval \<Rightarrow> int option" where
  "parseInt v =
     (case v of
        JNum n \<Rightarrow> Some n
      | JStr s \<Rightarrow>
          (case dropWhile is_space s of
             [] \<Rightarrow> None
           | c # cs \<Rightarrow>
               if c = CHR ''-'' then map_option uminus (parse_digits cs)
               else if c = CHR ''+'' then parse_digits cs
               else parse_digits (c # cs))
      | _ \<Rightarrow> None)"

section \<open>Waiting for all: \<open>Promise.all\<close>\<close>

text \<open>
  \<open>Promise.all\<close> over promises \<open>ps\<close> (each given by what it settles to) keeps one slot
  per promise. When promise \<open>i\<close> fulfils, its value goes to slot \<open>i\<close>; when every slot
  is filled the whole fulfils with the slots in index order; the first promise to
  reject rejects the whole. \<open>sched\<close> is the order in which the promises settle, as a
  list of indices; \<open>None\<close>: the schedule ended with a slot still empty.
\<close>

fun settle :: "nat list \<Rightarrow> 'a result list \<Rightarrow> 'a option list \<Rightarrow> 'a list result option" where
  "settle sched ps slots =
     (case those slots of
        Some vs \<Rightarrow> Some (Inr vs)
      | None \<Rightarrow>
          (case sched of
             [] \<Rightarrow> None
           | i # rest \<Rightarrow>
               if i < length ps
               then (case ps ! i of
                       Inl e \<Rightarrow> Some (Inl e)
                     | Inr v \<Rightarrow> settle rest ps (slots[i := Some v]))
               else settle rest ps slots))"

definition promise_all :: "nat list \<Rightarrow> 'a result list \<Rightarrow> 'a list result option" where
  "promise_all sched ps = settle sched ps (replicate (length ps) None)"

section \<open>The mail script: commands\<close>

definition threw :: "remote_call list \<Rightarrow> line list \<Rightarrow> js_error \<Rightarrow> run" where
  "threw cs out e = \<lparr>calls = cs, stdout = out, ending = Threw e\<rparr>"

definition returned :: "remote_call list \<Rightarrow> line list \<Rightarrow> run" where
  "returned cs out = \<lparr>calls = cs, stdout = out, ending = Returned\<rparr>"

text \<open>\<open>(v || []).map(f)\<close>: a truthy \<open>v\<close> that is no array has no \<open>map\<close>.\<close>

definition map_items :: "(jsval \<Rightarrow> jsval result) \<Rightarrow> jsval \<Rightarrow> jsval result" where
  "map_items f v =
     (case jor v (JArr []) of
        JArr xs \<Rightarrow> (case mapM f xs of Inl e \<Rightarrow> Inl e | Inr ys \<Rightarrow> Inr (JArr ys))
      | _ \<Rightarrow> Inl TypeError)"

text \<open>The parameters of both enumerations: \<open>q\<close> is set for a truthy query only.\<close>

definition query_params :: "jsval \<Rightarrow> jsval \<Rightarrow> (string \<times> pval) list" where
  "query_params maxResults query =
     [(''userId'', PVal (JStr ''me'')), (''maxResults'', PNum (parseInt maxResults))]
     @ (if truthy query then [(''q'', PVal query)] else [])"

definition metadata_params :: "jsval \<Rightarrow> (string \<times> pval) list" where
  "metadata_params i =
     [(''userId'', PVal (JStr ''me'')),
      (''id'', PVal i),
      (''format'', PVal (JStr ''metadata'')),
      (''metadataHeaders'', PVal (JArr [JStr ''From'', JStr ''Subject'', JStr ''Date'']))]"

text \<open>
  One task of the fan-out of \<open>listMessages\<close>: the asynchronous callback of
  \<open>messages.map\<close> on the reference \<open>m\<close>. It issues its request when \<open>map\<close> calls it
  (unless reading \<open>m.id\<close> throws), and builds the summary when the response is there.
\<close>

definition message_summary :: "jsval \<Rightarrow> jsval \<Rightarrow> jsval result" where
  "message_summary m data =
     (if nullish data then Inl TypeError
      else let headers = jor (optget (get data ''payload'') ''headers'') (JArr []) in
        bindE (getHeader headers ''From'') (\<lambda>from.
        bindE (getHeader headers ''Subject'') (\<lambda>subject.
        bindE (getHeader headers ''Date'') (\<lambda>date.
          Inr (JObj [(''id'', get m ''id''),
                     (''from'', from),
                     (''subject'', subject),
                     (''date'', date),
                     (''snippet'', get data ''snippet'')])))))"

definition message_task :: "remote \<Rightarrow> jsval \<Rightarrow> remote_call option \<times> jsval result" where
  "message_task remote m =
     (if nullish m then (None, Inl TypeError)
      else let c = (Gmail_messages_get, metadata_params (get m ''id''))
           in (Some c, bindE (remote c) (message_summary m)))"

text \<open>
  The fan-out: \<open>map\<close> starts every task, so every request is issued, in the order of the
  enumeration, before any response is read; then \<open>Promise.all\<close> waits, and the list of
  summaries is printed once all are there.
\<close>

definition issued :: "(remote_call option \<times> 'a) list \<Rightarrow> remote_call list" where
  "issued tasks = concat (map (\<lambda>t. case fst t of None \<Rightarrow> [] | Some c \<Rightarrow> [c]) tasks)"

definition fan_out ::
  "nat list \<Rightarrow> remote_call list \<Rightarrow> (remote_call option \<times> jsval result) list \<Rightarrow> run" where
  "fan_out sched sent tasks =
     (case promise_all sched (map snd tasks) of
        None \<Rightarrow> \<lparr>calls = sent @ issued tasks, stdout = [], ending = Pending\<rparr>
      | Some (Inl e) \<Rightarrow> threw (sent @ issued tasks) [] e
      | Some (Inr summaries) \<Rightarrow> returned (sent @ issued tasks) [Json (JArr summaries)])"

text \<open>
  What \<open>refs.length === 0\<close> and then \<open>refs.map\<close> do with the enumerated references
  (\<open>res.data.messages || []\<close>): an array is empty or mapped; an object whose \<open>length\<close>
  is 0 counts as empty; anything else truthy has no \<open>map\<close>.
\<close>

definition aggregate ::
  "string \<Rightarrow> nat list \<Rightarrow> remote_call \<Rightarrow> (jsval \<Rightarrow> remote_call option \<times> jsval result) \<Rightarrow> jsval
     \<Rightarrow> run" where
  "aggregate none_found sched c task refs =
     (case jor refs (JArr []) of
        JArr ms \<Rightarrow>
          if ms = [] then returned [c] [Text none_found]
          else fan_out sched [c] (map task ms)
      | JObj kvs \<Rightarrow>
          if get (JObj kvs) ''length'' = JNum 0 then returned [c] [Text none_found]
          else threw [c] [] TypeError
      | _ \<Rightarrow> threw [c] [] TypeError)"

definition listMessages :: "remote \<Rightarrow> nat list \<Rightarrow> jsval \<Rightarrow> jsval \<Rightarrow> run" where
  "listMessages remote sched maxResults query =
     (let c = (Gmail_messages_list,
               query_params (dflt maxResults (JNum 10)) (dflt query (JStr [])))
      in case remote c of
           Inl e \<Rightarrow> threw [c] [] e
         | Inr data \<Rightarrow>
             if nullish data then threw [c] [] TypeError
             else aggregate ''No messages found.'' sched c (message_task remote)
                    (get data ''messages''))"

definition readMessage :: "(string \<Rightarrow> string) \<Rightarrow> remote \<Rightarrow> jsval \<Rightarrow> run" where
  "readMessage b64 remote messageId =
     (let c = (Gmail_messages_get,
               [(''userId'', PVal (JStr ''me'')),
                (''id'', PVal messageId),
                (''format'', PVal (JStr ''full''))])
      in case remote c of
           Inl e \<Rightarrow> threw [c] [] e
         | Inr data \<Rightarrow>
             (case formatMessage b64 data of
                Inl e \<Rightarrow> threw [c] [] e
              | Inr v \<Rightarrow> returned [c] [Json v]))"

definition searchMessages :: "remote \<Rightarrow> nat list \<Rightarrow> jsval \<Rightarrow> jsval \<Rightarrow> run" where
  "searchMessages remote sched query maxResults =
     listMessages remote sched (dflt maxResults (JNum 10)) query"

definition label_view :: "jsval \<Rightarrow> jsval result" where
  "label_view l =
     (if nullish l then Inl TypeError
      else Inr (JObj [(''id'', get l ''id''), (''name'', get l ''name''), (''type'', get l ''type'')]))"

definition listLabels :: "remote \<Rightarrow> run" where
  "listLabels remote =
     (let c = (Gmail_labels_list, [(''userId'', PVal (JStr ''me''))])
      in case remote c of
           Inl e \<Rightarrow> threw [c] [] e
         | Inr data \<Rightarrow>
             (case bindE (getE data ''labels'') (map_items label_view) of
                Inl e \<Rightarrow> threw [c] [] e
              | Inr v \<Rightarrow> returned [c] [Json v]))"

text \<open>
  \<open>v?.[0]\<close> and \<open>v?.length\<close> as \<open>listThreads\<close> reads them off
  \<open>full.data.messages\<close>.
\<close>

definition first_of :: "jsval \<Rightarrow> jsval" where
  "first_of v =
     (case v of
        JArr xs \<Rightarrow> (case xs of [] \<Rightarrow> JUndefined | x # _ \<Rightarrow> x)
      | JStr s \<Rightarrow> (case s of [] \<Rightarrow> JUndefined | ch # _ \<Rightarrow> JStr [ch])
      | JObj kvs \<Rightarrow> get (JObj kvs) ''0''
      | _ \<Rightarrow> JUndefined)"

definition length_of :: "jsval \<Rightarrow> jsval" where
  "length_of v =
     (case v of
        JArr xs \<Rightarrow> JNum (int (length xs))
      | JStr s \<Rightarrow> JNum (int (length s))
      | JObj kvs \<Rightarrow> get (JObj kvs) ''length''
      | _ \<Rightarrow> JUndefined)"

definition thread_summary :: "jsval \<Rightarrow> jsval \<Rightarrow> jsval result" where
  "thread_summary t data =
     (if nullish data then Inl TypeError
      else let firstMsg = first_of (get data ''messages'');
               headers = jor (optget (optget firstMsg ''payload'') ''headers'') (JArr [])
           in
        bindE (getHeader headers ''From'') (\<lambda>from.
        bindE (getHeader headers ''Subject'') (\<lambda>subject.
        bindE (getHeader headers ''Date'') (\<lambda>date.
          Inr (JObj [(''threadId'', get t ''id''),
                     (''messageCount'', jor (length_of (get data ''messages'')) (JNum 0)),
                     (''from'', from),
                     (''subject'', subject),
                     (''date'', date),
                     (''snippet'', optget firstMsg ''snippet'')])))))"

definition thread_task :: "remote \<Rightarrow> jsval \<Rightarrow> remote_call option \<times> jsval result" where
  "thread_task remote t =
     (if nullish t then (None, Inl TypeError)
      else let c = (Gmail_threads_get, metadata_params (get t ''id''))
           in (Some c, bindE (remote c) (thread_summary t)))"

definition listThreads :: "remote \<Rightarrow> nat list \<Rightarrow> jsval \<Rightarrow> jsval \<Rightarrow> run" where
  "listThreads remote sched query maxResults =
     (let c = (Gmail_threads_list, query_params (dflt maxResults (JNum 10)) query)
      in case remote c of
           Inl e \<Rightarrow> threw [c] [] e
         | Inr data \<Rightarrow>
             if nullish data then threw [c] [] TypeError
             else aggregate ''No threads found.'' sched c (thread_task remote)
                    (get data ''threads''))"

text \<open>
  The dispatch of \<open>gmail.js\<close> on \<open>process.argv\<close> past the script's name. (The dash of
  the banner is a long dash in the source.)
\<close>

definition gmail_help :: "string list" where
  "gmail_help =
     [''Gmail Helper - Read Only'',
      ''Commands: list, read, search, labels, threads'',
      ''Examples:'',
      ''  node gmail.js list 5'',
      ''  node gmail.js read 18dc1234abcd'',
      ''  node gmail.js search \"from:boss@company.com\" 10'',
      ''  node gmail.js labels'',
      ''  node gmail.js threads \"subject:meeting\" 5'']"

definition gmail_main :: "(string \<Rightarrow> string) \<Rightarrow> remote \<Rightarrow> nat list \<Rightarrow> string list \<Rightarrow> outcome" where
  "gmail_main b64 remote sched argv =
     (let command = arg argv 0; args = drop 1 argv in
      if command = JStr ''list''
      then top_level (listMessages remote sched (arg args 0) (JStr (join (drop 1 args))))
      else if command = JStr ''read''
      then (if \<not> truthy (arg args 0) then usage [''Usage: gmail.js read <messageId>'']
            else top_level (readMessage b64 remote (arg args 0)))
      else if command = JStr ''search''
      then (if \<not> truthy (arg args 0) then usage [''Usage: gmail.js search <query> [maxResults]'']
            else top_level (searchMessages remote sched (arg args 0) (arg args 1)))
      else if command = JStr ''labels''
      then top_level (listLabels remote)
      else if command = JStr ''threads''
      then top_level (listThreads remote sched (arg args 0) (arg args 1))
      else usage gmail_help)"

section \<open>The calendar script\<close>

definition attendee_view :: "jsval \<Rightarrow> jsval result" where
  "attendee_view a =
     (if nullish a then Inl TypeError
      else Inr (JObj [(''email'', get a ''email''),
                      (''responseStatus'', get a ''responseStatus'')]))"

definition formatEvent :: "jsval \<Rightarrow> jsval result" where
  "formatEvent ev =
     (if nullish ev then Inl TypeError
      else bindE (map_items attendee_view (get ev ''attendees'')) (\<lambda>attendees.
        Inr (JObj
          [(''id'', get ev ''id''),
           (''summary'', get ev ''summary''),
           (''description'', jor (get ev ''description'') (JStr [])),
           (''location'', jor (get ev ''location'') (JStr [])),
           (''start'', jor (jor (optget (get ev ''start'') ''dateTime'')
                                (optget (get ev ''start'') ''date'')) (JStr [])),
           (''end'', jor (jor (optget (get ev ''end'') ''dateTime'')
                              (optget (get ev ''end'') ''date'')) (JStr [])),
           (''status'', get ev ''status''),
           (''htmlLink'', get ev ''htmlLink''),
           (''creator'', optget (get ev ''creator'') ''email''),
           (''attendees'', attendees),
           (''hangoutLink'', jor (get ev ''hangoutLink'') (JStr [])),
           (''recurringEventId'', jor (get ev ''recurringEventId'') (JStr []))])))"

text \<open>
  What the calendar script reads of the world besides the remote service: the clock
  (\<open>clock k\<close> is what the \<open>k\<close>-th \<open>new Date()\<close> of the run reads), and the JSON payloads,
  parsed: of standard input, and of the file at a path (an error when it cannot be read
  or parsed).
\<close>

record world =
  service :: remote
  clock :: "nat \<Rightarrow> datetime"
  stdin_json :: "jsval result"
  file_json :: "string \<Rightarrow> jsval result"

text \<open>Print the list \<open>(res.data.items || []).map(f)\<close> of the one request \<open>c\<close>.\<close>

definition print_items :: "remote \<Rightarrow> remote_call \<Rightarrow> string \<Rightarrow> (jsval \<Rightarrow> jsval result) \<Rightarrow> run" where
  "print_items r c field f =
     (case r c of
        Inl e \<Rightarrow> threw [c] [] e
      | Inr data \<Rightarrow>
          (case bindE (getE data field) (map_items f) of
             Inl e \<Rightarrow> threw [c] [] e
           | Inr v \<Rightarrow> returned [c] [Json v]))"

text \<open>Print a heading (if any) and then \<open>formatEvent(res.data)\<close> of the one request \<open>c\<close>.\<close>

definition print_event :: "remote \<Rightarrow> remote_call \<Rightarrow> line list \<Rightarrow> run" where
  "print_event r c heading =
     (case r c of
        Inl e \<Rightarrow> threw [c] [] e
      | Inr data \<Rightarrow>
          (case formatEvent data of
             Inl e \<Rightarrow> threw [c] heading e
           | Inr v \<Rightarrow> returned [c] (heading @ [Json v])))"

definition listEvents :: "world \<Rightarrow> jsval \<Rightarrow> jsval \<Rightarrow> run" where
  "listEvents w maxResults calendarId =
     print_items (service w)
       (Calendar_events_list,
        [(''calendarId'', PVal (dflt calendarId (JStr ''primary''))),
         (''maxResults'', PNum (parseInt (dflt maxResults (JNum 10)))),
         (''timeMin'', PInstant (clock w 0)),
         (''singleEvents'', PVal (JBool True)),
         (''orderBy'', PVal (JStr ''startTime''))])
       ''items'' formatEvent"

definition todayEvents :: "world \<Rightarrow> jsval \<Rightarrow> run" where
  "todayEvents w calendarId =
     print_items (service w)
       (Calendar_events_list,
        [(''calendarId'', PVal (dflt calendarId (JStr ''primary''))),
         (''timeMin'', PInstant (startOfDay (clock w 0))),
         (''timeMax'', PInstant (endOfDay (clock w 1))),
         (''singleEvents'', PVal (JBool True)),
         (''orderBy'', PVal (JStr ''startTime''))])
       ''items'' formatEvent"

definition weekEvents :: "world \<Rightarrow> jsval \<Rightarrow> run" where
  "weekEvents w calendarId =
     print_items (service w)
       (Calendar_events_list,
        [(''calendarId'', PVal (dflt calendarId (JStr ''primary''))),
         (''timeMin'', PInstant (startOfDay (clock w 0))),
         (''timeMax'', PInstant (endOfWeek (clock w 1))),
         (''singleEvents'', PVal (JBool True)),
         (''orderBy'', PVal (JStr ''startTime''))])
       ''items'' formatEvent"

definition getEvent :: "world \<Rightarrow> jsval \<Rightarrow> jsval \<Rightarrow> run" where
  "getEvent w eventId calendarId =
     print_event (service w)
       (Calendar_events_get,
        [(''calendarId'', PVal (dflt calendarId (JStr ''primary''))),
         (''eventId'', PVal eventId)])
       []"

definition searchEvents :: "world \<Rightarrow> jsval \<Rightarrow> jsval \<Rightarrow> jsval \<Rightarrow> run" where
  "searchEvents w query maxResults calendarId =
     print_items (service w)
       (Calendar_events_list,
        [(''calendarId'', PVal (dflt calendarId (JStr ''primary''))),
         (''q'', PVal query),
         (''maxResults'', PNum (parseInt (dflt maxResults (JNum 10)))),
         (''timeMin'', PInstant (clock w 0)),
         (''singleEvents'', PVal (JBool True)),
         (''orderBy'', PVal (JStr ''startTime''))])
       ''items'' formatEvent"

text \<open>
  The payload of \<open>create\<close> and \<open>update\<close>: standard input when the path is \<open>-\<close>, the
  file otherwise (\<open>readFileSync\<close> refuses a path that is no string).
\<close>

definition read_payload :: "world \<Rightarrow> jsval \<Rightarrow> jsval result" where
  "read_payload w jsonPath =
     (if jsonPath = JStr ''-'' then stdin_json w
      else case jsonPath of JStr path \<Rightarrow> file_json w path | _ \<Rightarrow> Inl TypeError)"

definition createEvent :: "world \<Rightarrow> jsval \<Rightarrow> jsval \<Rightarrow> run" where
  "createEvent w jsonPath calendarId =
     (case read_payload w jsonPath of
        Inl e \<Rightarrow> threw [] [] e
      | Inr eventData \<Rightarrow>
          print_event (service w)
            (Calendar_events_insert,
             [(''calendarId'', PVal (dflt calendarId (JStr ''primary''))),
              (''requestBody'', PVal eventData),
              (''sendUpdates'', PVal (JStr ''all''))])
            [Text ''Event created:''])"

definition quickAdd :: "world \<Rightarrow> jsval \<Rightarrow> jsval \<Rightarrow> run" where
  "quickAdd w text calendarId =
     print_event (service w)
       (Calendar_events_quickAdd,
        [(''calendarId'', PVal (dflt calendarId (JStr ''primary''))),
         (''text'', PVal text)])
       [Text ''Event created:'']"

definition updateEvent :: "world \<Rightarrow> jsval \<Rightarrow> jsval \<Rightarrow> jsval \<Rightarrow> run" where
  "updateEvent w eventId jsonPath calendarId =
     (case read_payload w jsonPath of
        Inl e \<Rightarrow> threw [] [] e
      | Inr patchData \<Rightarrow>
          print_event (service w)
            (Calendar_events_patch,
             [(''calendarId'', PVal (dflt calendarId (JStr ''primary''))),
              (''eventId'', PVal eventId),
              (''requestBody'', PVal patchData),
              (''sendUpdates'', PVal (JStr ''all''))])
            [Text ''Event updated:''])"

definition calendar_view :: "jsval \<Rightarrow> jsval result" where
  "calendar_view c =
     (if nullish c then Inl TypeError
      else Inr (JObj [(''id'', get c ''id''),
                      (''summary'', get c ''summary''),
                      (''primary'', jor (get c ''primary'') (JBool False)),
                      (''accessRole'', get c ''accessRole''),
                      (''timeZone'', get c ''timeZone'')]))"

definition listCalendars :: "world \<Rightarrow> run" where
  "listCalendars w = print_items (service w) (Calendar_calendarList_list, []) ''items'' calendar_view"

text \<open>
  The dispatch of \<open>calendar.js\<close>. (The dash of the banner is a long dash in the
  source.)
\<close>

definition calendar_help :: "string list" where
  "calendar_help =
     [''Calendar Helper - Read + Write (No Delete)'',
      ''Commands: list, today, week, get, search, create, quick, update, calendars'',
      ''Examples:'',
      ''  node calendar.js today'',
      ''  node calendar.js week'',
      ''  node calendar.js list 20'',
      ''  node calendar.js search \"standup\" 5'',
      ''  node calendar.js quick \"Lunch with Alice tomorrow at noon\"'',
      ''  node calendar.js create event.json'',
      ''  node calendar.js update abc123 patch.json'',
      ''  node calendar.js calendars'']"

definition calendar_main :: "world \<Rightarrow> string list \<Rightarrow> outcome" where
  "calendar_main w argv =
     (let command = arg argv 0; args = drop 1 argv in
      if command = JStr ''list''
      then top_level (listEvents w (arg args 0) (arg args 1))
      else if command = JStr ''today''
      then top_level (todayEvents w (arg args 0))
      else if command = JStr ''week''
      then top_level (weekEvents w (arg args 0))
      else if command = JStr ''get''
      then (if \<not> truthy (arg args 0)
            then usage [''Usage: calendar.js get <eventId> [calendarId]'']
            else top_level (getEvent w (arg args 0) (arg args 1)))
      else if command = JStr ''search''
      then (if \<not> truthy (arg args 0)
            then usage [''Usage: calendar.js search <query> [maxResults] [calendarId]'']
            else top_level (searchEvents w (arg args 0) (arg args 1) (arg args 2)))
      else if command = JStr ''create''
      then (if \<not> truthy (arg args 0)
            then usage [''Usage: calendar.js create <jsonFile|-> [calendarId]'']
            else top_level (createEvent w (arg args 0) (arg args 1)))
      else if command = JStr ''quick''
      then (if \<not> truthy (arg args 0)
            then usage [''Usage: calendar.js quick \"<text>\" [calendarId]'']
            else top_level (quickAdd w (JStr (join args)) JUndefined))
      else if command = JStr ''update''
      then (if \<not> truthy (arg args 0) \<or> \<not> truthy (arg args 1)
            then usage [''Usage: calendar.js update <eventId> <jsonFile|-> [calendarId]'']
            else top_level (updateEvent w (arg args 0) (arg args 1) (arg args 2)))
      else if command = JStr ''calendars''
      then top_level (listCalendars w)
      else usage calendar_help)"

section \<open>The file-store script\<close>

text \<open>
  \<open>query.replace(/'/g, "\\'")\<close>: a backslash before every single quote. The single
  quote is \<open>CHR 0x27\<close>, the backslash \<open>CHR 0x5C\<close>.
\<close>

definition escape_quotes :: "string \<Rightarrow> string" where
  "escape_quotes q = concat (map (\<lambda>c. if c = CHR 0x27 then [CHR 0x5C, CHR 0x27] else [c]) q)"

definition quoted :: "string \<Rightarrow> string" where
  "quoted q = [CHR 0x27] @ escape_quotes q @ [CHR 0x27]"

definition files_fields :: string where
  "files_fields = ''files(id, name, mimeType, modifiedTime, webViewLink, owners)''"

definition file_view :: "jsval \<Rightarrow> jsval result" where
  "file_view f =
     (if nullish f then Inl TypeError
      else Inr (JObj [(''id'', get f ''id''),
                      (''name'', get f ''name''),
                      (''mimeType'', get f ''mimeType''),
                      (''modifiedTime'', get f ''modifiedTime''),
                      (''webViewLink'', get f ''webViewLink''),
                      (''owner'', jor (optget (first_of (get f ''owners'')) ''emailAddress'')
                                     (JStr []))]))"

text \<open>
  \<open>listFiles\<close> and \<open>searchFiles\<close> put the query into the text of \<open>q\<close>; a query that
  is no string has no \<open>replace\<close> to call, and the command throws before any request.
\<close>

definition listFiles :: "remote \<Rightarrow> jsval \<Rightarrow> jsval \<Rightarrow> run" where
  "listFiles r maxResults query =
     (case (if truthy (dflt query (JStr []))
            then (case dflt query (JStr []) of
                    JStr q \<Rightarrow> Inr (''trashed = false'' @ '' and (name contains '' @ quoted q @ '')'')
                  | _ \<Rightarrow> Inl TypeError)
            else Inr ''trashed = false'') of
        Inl e \<Rightarrow> threw [] [] e
      | Inr q \<Rightarrow>
          print_items r
            (Drive_files_list,
             [(''pageSize'', PNum (parseInt (dflt maxResults (JNum 10)))),
              (''fields'', PVal (JStr files_fields)),
              (''orderBy'', PVal (JStr ''modifiedTime desc'')),
              (''q'', PVal (JStr q))])
            ''files'' file_view)"

definition searchFiles :: "remote \<Rightarrow> jsval \<Rightarrow> jsval \<Rightarrow> run" where
  "searchFiles r query maxResults =
     (case query of
        JStr q \<Rightarrow>
          print_items r
            (Drive_files_list,
             [(''pageSize'', PNum (parseInt (dflt maxResults (JNum 10)))),
              (''fields'', PVal (JStr files_fields)),
              (''q'', PVal (JStr (''trashed = false and (name contains '' @ quoted q
                                  @ '' or fullText contains '' @ quoted q @ '')''))),
              (''orderBy'', PVal (JStr ''modifiedTime desc''))])
            ''files'' file_view
      | _ \<Rightarrow> threw [] [] TypeError)"

text \<open>\<open>v.map(f)\<close> with no default: only an array has a \<open>map\<close>.\<close>

definition map_array :: "(jsval \<Rightarrow> jsval result) \<Rightarrow> jsval \<Rightarrow> jsval list result" where
  "map_array f v = (case v of JArr xs \<Rightarrow> mapM f xs | _ \<Rightarrow> Inl TypeError)"

definition sheet_title :: "jsval \<Rightarrow> jsval result" where
  "sheet_title s = bindE (getE s ''properties'') (\<lambda>props. getE props ''title'')"

text \<open>
  \<open>res.data.values || []\<close> as printed. On an array \<open>values\<close> is the built-in method,
  which is truthy and which the printed JSON leaves out, as it leaves out \<open>undefined\<close>.
\<close>

definition values_or_empty :: "jsval \<Rightarrow> jsval" where
  "values_or_empty data =
     (case data of JArr _ \<Rightarrow> JUndefined | _ \<Rightarrow> jor (get data ''values'') (JArr []))"

definition readSheet :: "remote \<Rightarrow> jsval \<Rightarrow> jsval \<Rightarrow> run" where
  "readSheet r spreadsheetId range_arg =
     (if truthy (dflt range_arg (JStr []))
      then (let c = (Sheets_values_get,
                     [(''spreadsheetId'', PVal spreadsheetId), (''range'', PVal range_arg)])
            in case r c of
                 Inl e \<Rightarrow> threw [c] [] e
               | Inr data \<Rightarrow>
                   if nullish data then threw [c] [] TypeError
                   else returned [c]
                          [Json (JObj [(''range'', get data ''range''),
                                       (''values'', values_or_empty data)])])
      else (let c1 = (Sheets_spreadsheets_get, [(''spreadsheetId'', PVal spreadsheetId)])
            in case r c1 of
                 Inl e \<Rightarrow> threw [c1] [] e
               | Inr meta \<Rightarrow>
                   (case bindE (getE meta ''sheets'') (map_array sheet_title) of
                      Inl e \<Rightarrow> threw [c1] [] e
                    | Inr sheetNames \<Rightarrow>
                        (let firstSheet = first_of (JArr sheetNames);
                             c2 = (Sheets_values_get,
                                   [(''spreadsheetId'', PVal spreadsheetId),
                                    (''range'', PVal firstSheet)])
                         in case r c2 of
                              Inl e \<Rightarrow> threw [c1, c2] [] e
                            | Inr data \<Rightarrow>
                                (case bindE (getE (get meta ''properties'') ''title'') (\<lambda>title.
                                      if nullish data then Inl TypeError
                                      else Inr (JObj
                                        [(''spreadsheetTitle'', title),
                                         (''sheet'', firstSheet),
                                         (''availableSheets'', JArr sheetNames),
                                         (''range'', get data ''range''),
                                         (''values'', values_or_empty data)])) of
                                   Inl e \<Rightarrow> threw [c1, c2] [] e
                                 | Inr v \<Rightarrow> returned [c1, c2] [Json v])))))"

definition sheet_view :: "jsval \<Rightarrow> jsval result" where
  "sheet_view s =
     bindE (getE s ''properties'') (\<lambda>props.
       if nullish props then Inl TypeError
       else Inr (JObj
         [(''title'', get props ''title''),
          (''sheetId'', get props ''sheetId''),
          (''index'', get props ''index''),
          (''rowCount'', optget (get props ''gridProperties'') ''rowCount''),
          (''columnCount'', optget (get props ''gridProperties'') ''columnCount'')]))"

definition sheetInfo :: "remote \<Rightarrow> jsval \<Rightarrow> run" where
  "sheetInfo r spreadsheetId =
     (let c = (Sheets_spreadsheets_get, [(''spreadsheetId'', PVal spreadsheetId)])
      in case r c of
           Inl e \<Rightarrow> threw [c] [] e
         | Inr data \<Rightarrow>
             (case bindE (getE data ''properties'') (\<lambda>props.
                   if nullish props then Inl TypeError
                   else bindE (map_array sheet_view (get data ''sheets'')) (\<lambda>sheets.
                     Inr (JObj [(''title'', get props ''title''),
                                (''locale'', get props ''locale''),
                                (''timeZone'', get props ''timeZone''),
                                (''spreadsheetUrl'', get data ''spreadsheetUrl''),
                                (''sheets'', JArr sheets)]))) of
                Inl e \<Rightarrow> threw [c] [] e
              | Inr v \<Rightarrow> returned [c] [Json v]))"

definition sheets_help :: "string list" where
  "sheets_help =
     [''Sheets & Drive Helper - Read Only'',
      ''Commands: files, read, info, search'',
      ''Examples:'',
      ''  node sheets.js files 10'',
      ''  node sheets.js search \"budget\"'',
      ''  node sheets.js info 1BxiMVs0XRA5nFMdKvBdBZjgmUUqptlbs74OgVE2upms'',
      ''  node sheets.js read 1BxiMVs0XRA5nFMdKvBdBZjgmUUqptlbs74OgVE2upms'',
      ''  node sheets.js read 1BxiMVs0XRA5nFMdKvBdBZjgmUUqptlbs74OgVE2upms \"Sheet1!A1:D10\"'']"

definition sheets_main :: "remote \<Rightarrow> string list \<Rightarrow> outcome" where
  "sheets_main r argv =
     (let command = arg argv 0; args = drop 1 argv in
      if command = JStr ''files''
      then top_level (listFiles r (arg args 0) (JStr (join (drop 1 args))))
      else if command = JStr ''read''
      then (if \<not> truthy (arg args 0)
            then usage [''Usage: sheets.js read <spreadsheetId> [range]'',
                        ''  range example: \"Sheet1!A1:D10\"'']
            else top_level (readSheet r (arg args 0) (arg args 1)))
      else if command = JStr ''info''
      then (if \<not> truthy (arg args 0) then usage [''Usage: sheets.js info <spreadsheetId>'']
            else top_level (sheetInfo r (arg args 0)))
      else if command = JStr ''search''
      then (if \<not> truthy (arg args 0)
            then usage [''Usage: sheets.js search <query> [maxResults]'']
            else top_level (searchFiles r (arg args 0) (arg args 1)))
      else usage sheets_help)"

section \<open>What is said of a run\<close>

text \<open>A run issues no delete request when none of its requests goes to a deleting method.\<close>

definition no_delete :: "remote_call list \<Rightarrow> bool" where
  "no_delete cs = list_all (\<lambda>c. \<not> deleting (fst c)) cs"

text \<open>
  What ends a run that failed without output: nothing printed, the error reported, and
  the status 1.
\<close>

fun error_report :: "line list \<Rightarrow> bool" where
  "error_report [ErrorLine e] = True"
| "error_report _ = False"

definition failed_without_output :: "outcome \<Rightarrow> bool" where
  "failed_without_output out = (printed out = [] \<and> error_report (stderr out) \<and> status out = Exit 1)"

section \<open>Example inputs\<close>

text \<open>A world whose remote service answers every request with an empty object.\<close>

definition quiet_world :: world where
  "quiet_world =
     \<lparr>service = (\<lambda>c. Inr (JObj [])),
      clock = (\<lambda>k. \<lparr>day = 20758, msec = 34200000\<rparr>),
      stdin_json = Inr (JObj [(''summary'', JStr ''X'')]),
      file_json = (\<lambda>path. Inl (PayloadError path))\<rparr>"

text \<open>
  A mailbox as the remote service: the enumeration returns the references of \<open>ids\<close>
  in that order, and the detail fetch of an identifier returns its item.
\<close>

definition header :: "string \<Rightarrow> string \<Rightarrow> jsval" where
  "header n v = JObj [(''name'', JStr n), (''value'', JStr v)]"

definition mail_item :: "string \<Rightarrow> jsval" where
  "mail_item i =
     JObj [(''id'', JStr i),
           (''threadId'', JStr (''thread-'' @ i)),
           (''snippet'', JStr (''snippet '' @ i)),
           (''payload'',
            JObj [(''mimeType'', JStr ''text/plain''),
                  (''headers'',
                   JArr [header ''Date'' ''Mon, 2 Nov 2026 09:00:00 +0000'',
                         header ''Subject'' (''subject '' @ i),
                         header ''From'' ''alice@example.com'']),
                  (''body'', JObj [(''data'', JStr ''aGVsbG8'')])])]"

definition mail_ref :: "string \<Rightarrow> jsval" where
  "mail_ref i = JObj [(''id'', JStr i), (''threadId'', JStr (''thread-'' @ i))]"

definition thread_ref :: "string \<Rightarrow> jsval" where
  "thread_ref i = JObj [(''id'', JStr i), (''snippet'', JStr (''snippet '' @ i))]"

definition requested_id :: "remote_call \<Rightarrow> string option" where
  "requested_id c =
     (case map_of (snd c) ''id'' of Some (PVal (JStr i)) \<Rightarrow> Some i | _ \<Rightarrow> None)"

definition mailbox :: "string list \<Rightarrow> remote" where
  "mailbox ids c =
     (if fst c = Gmail_messages_list then Inr (JObj [(''messages'', JArr (map mail_ref ids))])
      else if fst c = Gmail_threads_list then Inr (JObj [(''threads'', JArr (map thread_ref ids))])
      else case requested_id c of
             None \<Rightarrow> Inl (Rejected ''Not Found'')
           | Some i \<Rightarrow>
               if i \<notin> set ids then Inl (Rejected ''Not Found'')
               else if fst c = Gmail_messages_get then Inr (mail_item i)
               else if fst c = Gmail_threads_get
               then Inr (JObj [(''id'', JStr i), (''messages'', JArr [mail_item i])])
               else Inl (Rejected ''Not Found''))"

text \<open>The same service, but one request is rejected.\<close>

definition rejecting :: "remote_call \<Rightarrow> remote \<Rightarrow> remote" where
  "rejecting c r = r(c := Inl (Rejected ''Backend Error''))"

definition summary_of :: "string \<Rightarrow> jsval" where
  "summary_of i =
     JObj [(''id'', JStr i),
           (''from'', JStr ''alice@example.com''),
           (''subject'', JStr (''subject '' @ i)),
           (''date'', JStr ''Mon, 2 Nov 2026 09:00:00 +0000''),
           (''snippet'', JStr (''snippet '' @ i))]"

text \<open>
  A calendar event as the remote service returns it, its projection, and the projection
  of that projection; a full message's projection.
\<close>

definition raw_event :: jsval where
  "raw_event =
     JObj [(''id'', JStr ''e1''),
           (''etag'', JStr ''3181161784712000''),
           (''summary'', JStr ''Meeting with Bob''),
           (''start'', JObj [(''dateTime'', JStr ''2026-02-10T10:00:00-08:00'')]),
           (''end'', JObj [(''dateTime'', JStr ''2026-02-10T11:00:00-08:00'')]),
           (''creator'', JObj [(''email'', JStr ''me@example.com'')]),
           (''attendees'',
            JArr [JObj [(''email'', JStr ''bob@example.com''),
                        (''responseStatus'', JStr ''accepted'')]])]"

definition event_projection :: jsval where
  "event_projection =
     JObj [(''id'', JStr ''e1''),
           (''summary'', JStr ''Meeting with Bob''),
           (''description'', JStr []),
           (''location'', JStr []),
           (''start'', JStr ''2026-02-10T10:00:00-08:00''),
           (''end'', JStr ''2026-02-10T11:00:00-08:00''),
           (''status'', JUndefined),
           (''htmlLink'', JUndefined),
           (''creator'', JStr ''me@example.com''),
           (''attendees'',
            JArr [JObj [(''email'', JStr ''bob@example.com''),
                        (''responseStatus'', JStr ''accepted'')]]),
           (''hangoutLink'', JStr []),
           (''recurringEventId'', JStr [])]"

definition event_reprojection :: jsval where
  "event_reprojection =
     JObj [(''id'', JStr ''e1''),
           (''summary'', JStr ''Meeting with Bob''),
           (''description'', JStr []),
           (''location'', JStr []),
           (''start'', JStr []),
           (''end'', JStr []),
           (''status'', JUndefined),
           (''htmlLink'', JUndefined),
           (''creator'', JUndefined),
           (''attendees'',
            JArr [JObj [(''email'', JStr ''bob@example.com''),
                        (''responseStatus'', JStr ''accepted'')]]),
           (''hangoutLink'', JStr []),
           (''recurringEventId'', JStr [])]"

definition message_projection :: jsval where
  "message_projection =
     JObj [(''id'', JStr ''A''),
           (''threadId'', JStr ''thread-A''),
           (''from'', JStr ''alice@example.com''),
           (''to'', JStr []),
           (''subject'', JStr ''subject A''),
           (''date'', JStr ''Mon, 2 Nov 2026 09:00:00 +0000''),
           (''snippet'', JStr ''snippet A''),
           (''labels'', JUndefined),
           (''body'', JStr ''aGVsbG8'')]"

text \<open>The mailbox of five items, where the detail fetches of \<open>C\<close> are rejected.\<close>

definition broken_mailbox :: remote where
  "broken_mailbox =
     rejecting (Gmail_messages_get, metadata_params (JStr ''C''))
       (rejecting (Gmail_threads_get, metadata_params (JStr ''C''))
          (mailbox [''A'', ''B'', ''C'', ''D'', ''E'']))"

section \<open>Requests of a run\<close>

lemma requests_top_level: "requests (top_level x) = calls x"
  by (simp add: top_level_def split: completion.splits)

lemma requests_usage: "requests (usage ls) = []"
  by (simp add: usage_def)

lemma calls_fan_out: "calls (fan_out sched sent tasks) = sent @ issued tasks"
  by (simp add: fan_out_def threw_def returned_def split: option.splits sum.splits)

lemma issued_Nil: "issued [] = []"
  by (simp add: issued_def)

lemma issued_Cons: "issued (t # ts) = (case fst t of None \<Rightarrow> [] | Some c \<Rightarrow> [c]) @ issued ts"
  by (simp add: issued_def)

lemma calls_aggregate:
  "calls (aggregate nf sched c task refs) =
     c # (case jor refs (JArr []) of JArr ms \<Rightarrow> issued (map task ms) | _ \<Rightarrow> [])"
  by (simp add: aggregate_def calls_fan_out threw_def returned_def issued_Nil split: jsval.splits)

lemma calls_print_items: "calls (print_items r c field f) = [c]"
  by (simp add: print_items_def threw_def returned_def split: sum.splits)

lemma calls_print_event: "calls (print_event r c heading) = [c]"
  by (simp add: print_event_def threw_def returned_def split: sum.splits)

lemma issued_message_tasks:
  "list_all (\<lambda>c. fst c = Gmail_messages_get) (issued (map (message_task r) ms))"
  by (induction ms) (auto simp: issued_Nil issued_Cons message_task_def Let_def)

lemma issued_thread_tasks:
  "list_all (\<lambda>c. fst c = Gmail_threads_get) (issued (map (thread_task r) ms))"
  by (induction ms) (auto simp: issued_Nil issued_Cons thread_task_def Let_def)

lemma list_all_mono: "list_all P xs \<Longrightarrow> (\<And>x. P x \<Longrightarrow> Q x) \<Longrightarrow> list_all Q xs"
  by (induction xs) auto

lemma no_delete_listMessages: "no_delete (calls (listMessages r sched n q))"
  unfolding no_delete_def
  by (auto simp: listMessages_def Let_def threw_def calls_aggregate split: sum.splits jsval.splits
      intro: list_all_mono [OF issued_message_tasks])

lemma no_delete_listThreads: "no_delete (calls (listThreads r sched n q))"
  unfolding no_delete_def
  by (auto simp: listThreads_def Let_def threw_def calls_aggregate split: sum.splits jsval.splits
      intro: list_all_mono [OF issued_thread_tasks])

lemma no_delete_gmail: "no_delete (requests (gmail_main b64 r sched argv))"
  using no_delete_listMessages no_delete_listThreads
  by (auto simp: gmail_main_def Let_def requests_top_level requests_usage searchMessages_def
      readMessage_def listLabels_def threw_def returned_def no_delete_def split: sum.splits)

lemma no_delete_calendar: "no_delete (requests (calendar_main w argv))"
  by (auto simp: calendar_main_def Let_def requests_top_level requests_usage no_delete_def
      listEvents_def todayEvents_def weekEvents_def getEvent_def searchEvents_def createEvent_def
      quickAdd_def updateEvent_def listCalendars_def calls_print_items calls_print_event threw_def
      split: sum.splits)

lemma no_delete_sheets: "no_delete (requests (sheets_main r argv))"
  by (auto simp: sheets_main_def Let_def requests_top_level requests_usage no_delete_def
      listFiles_def searchFiles_def readSheet_def sheetInfo_def calls_print_items threw_def returned_def
      split: sum.splits jsval.splits)

section \<open>No delete request\<close>

text \<open>
  C1. Whatever the command token and the arguments, in the calendar script and in the
  mail and file-store scripts, and whatever the remote service answers, no request of
  the run goes to a deleting method of the client library.
\<close>

theorem no_delete_dispatched:
  "no_delete (requests (calendar_main w argv)) \<and>
   no_delete (requests (gmail_main b64 r sched argv)) \<and>
   no_delete (requests (sheets_main r argv))"
  using no_delete_calendar [of w argv] no_delete_gmail [of b64 r sched argv]
    no_delete_sheets [of r argv]
  by simp

theorem no_delete_dispatched_witness:
  "requests (calendar_main quiet_world [''update'', ''e1'', ''-'']) =
     [(Calendar_events_patch,
       [(''calendarId'', PVal (JStr ''primary'')),
        (''eventId'', PVal (JStr ''e1'')),
        (''requestBody'', PVal (JObj [(''summary'', JStr ''X'')])),
        (''sendUpdates'', PVal (JStr ''all''))])] \<and>
   no_delete (requests (calendar_main quiet_world [''update'', ''e1'', ''-''])) \<and>
   no_delete (requests (gmail_main (\<lambda>s. s) (\<lambda>c. Inr (JObj [])) [] [''update'', ''e1'', ''-''])) \<and>
   no_delete (requests (sheets_main (\<lambda>c. Inr (JObj [])) [''update'', ''e1'', ''-'']))"
proof -
  have "requests (calendar_main quiet_world [''update'', ''e1'', ''-'']) =
     [(Calendar_events_patch,
       [(''calendarId'', PVal (JStr ''primary'')),
        (''eventId'', PVal (JStr ''e1'')),
        (''requestBody'', PVal (JObj [(''summary'', JStr ''X'')])),
        (''sendUpdates'', PVal (JStr ''all''))])]"
    by (simp add: calendar_main_def arg_def updateEvent_def read_payload_def quiet_world_def
        requests_top_level calls_print_event dflt_def)
  with no_delete_dispatched
    [of quiet_world "[''update'', ''e1'', ''-'']" "\<lambda>s. s" "\<lambda>c. Inr (JObj [])" "[]"]
  show ?thesis by simp
qed

section \<open>The end of the week\<close>

lemma endOfWeek_day: "day (endOfWeek now) = day now + (7 - getDay now)"
  by (simp add: endOfWeek_def setHours_def setDate_plus_def)

lemma endOfWeek_is_sunday: "getDay (endOfWeek now) = 0"
  unfolding getDay_def endOfWeek_def setHours_def setDate_plus_def by simp presburger

lemma endOfWeek_on_wednesday:
  "getDay now = 3 \<Longrightarrow> endOfWeek now = \<lparr>day = day now + 4, msec = 86399999\<rparr>"
  by (simp add: endOfWeek_def setHours_def setDate_plus_def)

lemma endOfWeek_after_today: "day now < day (endOfWeek now)"
  unfolding getDay_def endOfWeek_def setHours_def setDate_plus_def by simp

text \<open>
  C2. On a Sunday (here 2026-11-01, day 20758, at 09:30) \<open>endOfWeek\<close> is the end of
  the day seven days later, not the end of that same day, which is what \<open>endOfDay\<close> gives.
\<close>

theorem endOfWeek_on_sunday:
  "getDay \<lparr>day = 20758, msec = 34200000\<rparr> = 0 \<and>
   endOfWeek \<lparr>day = 20758, msec = 34200000\<rparr> = \<lparr>day = 20765, msec = 86399999\<rparr> \<and>
   endOfDay \<lparr>day = 20758, msec = 34200000\<rparr> = \<lparr>day = 20758, msec = 86399999\<rparr>"
  by (simp add: getDay_def endOfWeek_def endOfDay_def setHours_def setDate_plus_def)

section \<open>The quick command\<close>

text \<open>
  C9. \<open>calendar.js quick "Lunch tomorrow" team@example.com\<close>: the second argument is
  not the calendar of the request but the end of its text, and the calendar is
  \<open>primary\<close>, whatever the world.
\<close>

theorem quick_ignores_calendar:
  "requests (calendar_main w [''quick'', ''Lunch tomorrow'', ''team@example.com'']) =
     [(Calendar_events_quickAdd,
       [(''calendarId'', PVal (JStr ''primary'')),
        (''text'', PVal (JStr ''Lunch tomorrow team@example.com''))])]"
  by (simp add: calendar_main_def arg_def quickAdd_def requests_top_level calls_print_event
      dflt_def)

theorem quick_ignores_calendar_witness:
  "requests (calendar_main quiet_world [''quick'', ''Lunch tomorrow'', ''team@example.com'']) =
     [(Calendar_events_quickAdd,
       [(''calendarId'', PVal (JStr ''primary'')),
        (''text'', PVal (JStr ''Lunch tomorrow team@example.com''))])]"
  using quick_ignores_calendar [of quiet_world] by simp


section \<open>Properties of \<open>Promise.all\<close>\<close>

lemma those_Some_iff: "those xs = Some ys \<longleftrightarrow> xs = map Some ys"
  by (induction xs arbitrary: ys) (auto split: option.splits)

lemma those_None_iff: "those xs = None \<longleftrightarrow> None \<in> set xs"
  by (induction xs) (auto split: option.splits)

lemma settle_all_fulfilled:
  assumes "length vs = length ps" and "\<And>i. i < length ps \<Longrightarrow> ps ! i = Inr (vs ! i)"
  shows "length slots = length ps \<Longrightarrow>
         (\<And>i. i < length ps \<Longrightarrow> slots ! i = None \<or> slots ! i = Some (vs ! i)) \<Longrightarrow>
         (\<And>i. i < length ps \<Longrightarrow> slots ! i = None \<Longrightarrow> i \<in> set sched) \<Longrightarrow>
         settle sched ps slots = Some (Inr vs)"
proof (induction sched arbitrary: slots)
  case Nil
  have "slots = map Some vs"
  proof (rule nth_equalityI)
    show "length slots = length (map Some vs)" using Nil(1) assms(1) by simp
  next
    fix i assume "i < length slots"
    then have i: "i < length ps" using Nil(1) by simp
    with Nil(3) [OF i] Nil(2) [OF i] have "slots ! i = Some (vs ! i)" by auto
    then show "slots ! i = map Some vs ! i" using i assms(1) by simp
  qed
  then show ?case by (simp add: those_Some_iff [THEN iffD2])
next
  case (Cons j rest)
  show ?case
  proof (cases "those slots")
    case (Some vs')
    then have eq: "slots = map Some vs'" by (simp add: those_Some_iff)
    have "vs' = vs"
    proof (rule nth_equalityI)
      show "length vs' = length vs" using eq Cons.prems(1) assms(1) by (metis length_map)
    next
      fix i assume "i < length vs'"
      then have i: "i < length ps" using eq Cons.prems(1) by simp
      then have "slots ! i = Some (vs' ! i)" using eq \<open>i < length vs'\<close> by simp
      with Cons.prems(2) [OF i] show "vs' ! i = vs ! i" by simp
    qed
    with Some show ?thesis by simp
  next
    case None
    show ?thesis
    proof (cases "j < length ps")
      case True
      let ?slots = "slots[j := Some (vs ! j)]"
      have "settle rest ps ?slots = Some (Inr vs)"
      proof (rule Cons.IH)
        show "length ?slots = length ps" using Cons.prems(1) by simp
      next
        fix i assume i: "i < length ps"
        then show "?slots ! i = None \<or> ?slots ! i = Some (vs ! i)"
          using Cons.prems(1) Cons.prems(2) [OF i] by (cases "i = j") auto
      next
        fix i assume i: "i < length ps" and n: "?slots ! i = None"
        then have "i \<noteq> j" using Cons.prems(1) True by auto
        with n have "slots ! i = None" by simp
        from Cons.prems(3) [OF i this] \<open>i \<noteq> j\<close> show "i \<in> set rest" by simp
      qed
      with None True assms(2) [OF True] show ?thesis by simp
    next
      case False
      have "settle rest ps slots = Some (Inr vs)"
      proof (rule Cons.IH [OF Cons.prems(1) Cons.prems(2)])
        fix i assume i: "i < length ps" and n: "slots ! i = None"
        with False have "i \<noteq> j" by auto
        with Cons.prems(3) [OF i n] show "i \<in> set rest" by simp
      qed
      with None False show ?thesis by simp
    qed
  qed
qed

lemma promise_all_fulfilled:
  assumes "length vs = length ps" and "\<And>i. i < length ps \<Longrightarrow> ps ! i = Inr (vs ! i)"
    and "set [0..<length ps] \<subseteq> set sched"
  shows "promise_all sched ps = Some (Inr vs)"
  unfolding promise_all_def
  by (rule settle_all_fulfilled [OF assms(1,2)]) (use assms(3) in auto)

lemma settle_one_rejected:
  assumes "i < length ps" and "ps ! i = Inl e"
  shows "length slots = length ps \<Longrightarrow> slots ! i = None \<Longrightarrow>
         (\<forall>vs. settle sched ps slots \<noteq> Some (Inr vs)) \<and>
         (i \<in> set sched \<longrightarrow> (\<exists>e'. settle sched ps slots = Some (Inl e')))"
proof (induction sched arbitrary: slots)
  case Nil
  then have "None \<in> set slots" using assms(1) by (metis nth_mem)
  then have "those slots = None" by (simp add: those_None_iff)
  then show ?case by simp
next
  case (Cons j rest)
  then have "None \<in> set slots" using assms(1) by (metis nth_mem)
  then have none: "those slots = None" by (simp add: those_None_iff)
  show ?case
  proof (cases "j < length ps")
    case True
    show ?thesis
    proof (cases "ps ! j")
      case (Inl e')
      with none True show ?thesis by simp
    next
      case (Inr v)
      with assms(2) have ij: "i \<noteq> j" by auto
      have "length (slots[j := Some v]) = length ps" "slots[j := Some v] ! i = None"
        using Cons.prems ij by simp_all
      from Cons.IH [OF this] none True Inr ij show ?thesis by simp
    qed
  next
    case False
    with assms(1) have ij: "i \<noteq> j" by auto
    from Cons.IH [OF Cons.prems] none False ij show ?thesis by simp
  qed
qed

lemma promise_all_rejected:
  assumes "i < length ps" and "ps ! i = Inl e"
  shows "(\<forall>vs. promise_all sched ps \<noteq> Some (Inr vs)) \<and>
         (i \<in> set sched \<longrightarrow> (\<exists>e'. promise_all sched ps = Some (Inl e')))"
  unfolding promise_all_def
  by (rule settle_one_rejected [OF assms]) (use assms(1) in simp_all)

lemma settle_fulfilled_only:
  "settle sched ps slots = Some (Inr vs) \<Longrightarrow> length slots = length ps \<Longrightarrow>
   (\<And>i v. i < length ps \<Longrightarrow> slots ! i = Some v \<Longrightarrow> ps ! i = Inr v) \<Longrightarrow>
   length vs = length ps \<and> (\<forall>i<length ps. ps ! i = Inr (vs ! i))"
proof (induction sched arbitrary: slots)
  case Nil
  then have "those slots = Some vs" by (simp split: option.splits)
  then have "slots = map Some vs" by (simp add: those_Some_iff)
  with Nil(2,3) show ?case by auto
next
  case (Cons j rest)
  show ?case
  proof (cases "those slots")
    case (Some vs')
    with Cons.prems(1) have "those slots = Some vs" by simp
    then have "slots = map Some vs" by (simp add: those_Some_iff)
    with Cons.prems(2,3) show ?thesis by auto
  next
    case None
    show ?thesis
    proof (cases "j < length ps")
      case True
      with None Cons.prems(1) obtain v where v: "ps ! j = Inr v"
        and run: "settle rest ps (slots[j := Some v]) = Some (Inr vs)"
        by (auto split: sum.splits)
      show ?thesis
      proof (rule Cons.IH [OF run])
        show "length (slots[j := Some v]) = length ps" using Cons.prems(2) by simp
      next
        fix i w assume "i < length ps" "slots[j := Some v] ! i = Some w"
        then show "ps ! i = Inr w"
          using v Cons.prems(2) Cons.prems(3) [of i w] by (cases "i = j") auto
      qed
    next
      case False
      with None Cons.prems(1) have "settle rest ps slots = Some (Inr vs)" by simp
      from Cons.IH [OF this Cons.prems(2) Cons.prems(3)] show ?thesis by simp
    qed
  qed
qed

lemma promise_all_fulfilled_only:
  assumes "promise_all sched ps = Some (Inr vs)"
  shows "length vs = length ps \<and> (\<forall>i<length ps. ps ! i = Inr (vs ! i))"
  using assms unfolding promise_all_def
  by (rule settle_fulfilled_only) simp_all

lemma fan_out_fulfilled:
  assumes "length vs = length tasks"
    and "\<And>i. i < length tasks \<Longrightarrow> snd (tasks ! i) = Inr (vs ! i)"
    and "set [0..<length tasks] \<subseteq> set sched"
  shows "fan_out sched sent tasks = returned (sent @ issued tasks) [Json (JArr vs)]"
proof -
  have "promise_all sched (map snd tasks) = Some (Inr vs)"
    by (rule promise_all_fulfilled) (use assms in simp_all)
  then show ?thesis by (simp add: fan_out_def)
qed

lemma fan_out_rejected:
  assumes "i < length tasks" and "snd (tasks ! i) = Inl e"
  shows "stdout (fan_out sched sent tasks) = [] \<and> ending (fan_out sched sent tasks) \<noteq> Returned \<and>
         (i \<in> set sched \<longrightarrow> (\<exists>e'. ending (fan_out sched sent tasks) = Threw e'))"
proof -
  have "i < length (map snd tasks)" "map snd tasks ! i = Inl e"
    using assms by simp_all
  from promise_all_rejected [OF this, of sched] show ?thesis
    by (auto simp: fan_out_def threw_def returned_def split: option.splits sum.splits)
qed

lemma fan_out_printed:
  assumes "stdout (fan_out sched sent tasks) = [Json v]"
  shows "\<exists>vs. v = JArr vs \<and> length vs = length tasks \<and>
           (\<forall>i<length tasks. snd (tasks ! i) = Inr (vs ! i))"
proof -
  from assms obtain vs where p: "promise_all sched (map snd tasks) = Some (Inr vs)" and v: "v = JArr vs"
    by (auto simp: fan_out_def threw_def returned_def split: option.splits sum.splits)
  from promise_all_fulfilled_only [OF p] v show ?thesis by auto
qed

lemma issued_map:
  "(\<And>m. m \<in> set ms \<Longrightarrow> fst (task m) = Some (g m)) \<Longrightarrow> issued (map task ms) = map g ms"
  by (induction ms) (simp_all add: issued_Nil issued_Cons)

lemma message_task_fulfilled:
  assumes "snd (message_task r m) = Inr s"
  shows "fst (message_task r m) = Some (Gmail_messages_get, metadata_params (get m ''id''))"
  using assms by (auto simp: message_task_def Let_def split: if_splits)

lemma thread_task_fulfilled:
  assumes "snd (thread_task r m) = Inr s"
  shows "fst (thread_task r m) = Some (Gmail_threads_get, metadata_params (get m ''id''))"
  using assms by (auto simp: thread_task_def Let_def split: if_splits)

lemma bindE_Inr: "bindE m f = Inr y \<longleftrightarrow> (\<exists>x. m = Inr x \<and> f x = Inr y)"
  by (cases m) (simp_all add: bindE_def)

lemma bindE_Inl: "bindE (Inl e) f = Inl e"
  by (simp add: bindE_def)

lemma message_task_summary:
  assumes "snd (message_task r m) = Inr s"
  shows "\<exists>data from subject date.
           r (Gmail_messages_get, metadata_params (get m ''id'')) = Inr data \<and>
           getHeader (jor (optget (get data ''payload'') ''headers'') (JArr [])) ''From'' = Inr from \<and>
           getHeader (jor (optget (get data ''payload'') ''headers'') (JArr [])) ''Subject'' = Inr subject \<and>
           getHeader (jor (optget (get data ''payload'') ''headers'') (JArr [])) ''Date'' = Inr date \<and>
           s = JObj [(''id'', get m ''id''), (''from'', from), (''subject'', subject),
                     (''date'', date), (''snippet'', get data ''snippet'')]"
proof -
  from assms have nn: "\<not> nullish m" by (auto simp: message_task_def split: if_splits)
  with assms obtain data where d: "r (Gmail_messages_get, metadata_params (get m ''id'')) = Inr data"
    and s: "message_summary m data = Inr s"
    by (auto simp: message_task_def Let_def bindE_Inr)
  from s show ?thesis
    unfolding message_summary_def Let_def using d
    by (auto simp: bindE_Inr split: if_splits)
qed

lemma stdout_aggregate:
  assumes "stdout (aggregate nf sched c task refs) = [Json v]"
  shows "\<exists>ms vs. refs = JArr ms \<and> v = JArr vs \<and> length vs = length ms \<and>
           (\<forall>i<length ms. snd (task (ms ! i)) = Inr (vs ! i))"
proof -
  from assms obtain ms where ms: "jor refs (JArr []) = JArr ms" "ms \<noteq> []"
    and out: "stdout (fan_out sched [c] (map task ms)) = [Json v]"
    by (auto simp: aggregate_def threw_def returned_def split: jsval.splits if_splits)
  from ms have "refs = JArr ms" by (auto simp: jor_def split: if_splits)
  with fan_out_printed [OF out] show ?thesis by auto
qed

lemma stdout_listMessages:
  assumes "stdout (listMessages r sched n q) = [Json v]"
  shows "\<exists>data ms vs.
           r (Gmail_messages_list, query_params (dflt n (JNum 10)) (dflt q (JStr []))) = Inr data \<and>
           get data ''messages'' = JArr ms \<and> v = JArr vs \<and> length vs = length ms \<and>
           (\<forall>i<length ms. snd (message_task r (ms ! i)) = Inr (vs ! i))"
  using assms
  by (auto simp: listMessages_def Let_def threw_def split: sum.splits if_splits
      dest!: stdout_aggregate)

section \<open>The fan-out of the mail script\<close>

lemma toLowerCase_simps:
  "toLowerCase ''From'' = ''from''" "toLowerCase ''Subject'' = ''subject''" "toLowerCase ''Date'' = ''date''"
  by (simp_all add: toLowerCase_def lower_char_def)

lemma nullish_get: "get data k = JArr xs \<Longrightarrow> \<not> nullish data"
  by (cases data) simp_all

lemma listMessages_fulfilled:
  assumes list: "r (Gmail_messages_list, query_params (dflt n (JNum 10)) (dflt q (JStr []))) = Inr data"
    and refs: "get data ''messages'' = JArr refs" "refs \<noteq> []"
    and len: "length summaries = length refs"
    and fetched: "\<And>i. i < length refs \<Longrightarrow> snd (message_task r (refs ! i)) = Inr (summaries ! i)"
    and settled: "set [0..<length refs] \<subseteq> set sched"
  shows "listMessages r sched n q =
           \<lparr>calls = (Gmail_messages_list, query_params (dflt n (JNum 10)) (dflt q (JStr [])))
                    # map (\<lambda>m. (Gmail_messages_get, metadata_params (get m ''id''))) refs,
            stdout = [Json (JArr summaries)],
            ending = Returned\<rparr>"
proof -
  let ?c = "(Gmail_messages_list, query_params (dflt n (JNum 10)) (dflt q (JStr [])))"
  let ?tasks = "map (message_task r) refs"
  have issued: "issued ?tasks = map (\<lambda>m. (Gmail_messages_get, metadata_params (get m ''id''))) refs"
  proof (rule issued_map)
    fix m assume "m \<in> set refs"
    then obtain i where "i < length refs" "m = refs ! i" by (auto simp: in_set_conv_nth)
    with fetched [of i] show "fst (message_task r m) = Some (Gmail_messages_get, metadata_params (get m ''id''))"
      by (simp add: message_task_fulfilled)
  qed
  have "fan_out sched [?c] ?tasks = returned ([?c] @ issued ?tasks) [Json (JArr summaries)]"
    by (rule fan_out_fulfilled) (use len fetched settled in simp_all)
  with issued have "aggregate ''No messages found.'' sched ?c (message_task r) (JArr refs) =
      returned (?c # map (\<lambda>m. (Gmail_messages_get, metadata_params (get m ''id''))) refs) [Json (JArr summaries)]"
    using refs(2) by (simp add: aggregate_def jor_def)
  with list refs(1) nullish_get [OF refs(1)] show ?thesis
    by (simp add: listMessages_def returned_def)
qed






lemma task_mailbox:
  "i \<in> set ids \<Longrightarrow> message_task (mailbox ids) (mail_ref i) =
     (Some (Gmail_messages_get, metadata_params (JStr i)), Inr (summary_of i))"
  by (simp add: message_task_def mail_ref_def mailbox_def requested_id_def metadata_params_def
      bindE_def message_summary_def mail_item_def optget_def jor_def getHeader_def header_def
      summary_of_def toLowerCase_simps)




section \<open>All or nothing\<close>

lemma dflt_dflt: "dflt (dflt v d) d = dflt v d"
  by (simp add: dflt_def)

lemma top_level_threw:
  "ending x = Threw e \<Longrightarrow> stdout x = [] \<Longrightarrow> failed_without_output (top_level x)"
  by (simp add: top_level_def failed_without_output_def)

lemma aggregate_rejected:
  assumes "i < length refs" and "snd (task (refs ! i)) = Inl e" and "i \<in> set sched"
  shows "failed_without_output (top_level (aggregate nf sched c task (JArr refs)))"
proof -
  let ?run = "fan_out sched [c] (map task refs)"
  have "i < length (map task refs)" "snd (map task refs ! i) = Inl e"
    using assms(1,2) by simp_all
  from fan_out_rejected [OF this, of sched "[c]"] assms(3)
  obtain e' where "stdout ?run = []" "ending ?run = Threw e'" by auto
  then have "failed_without_output (top_level ?run)" by (simp add: top_level_threw)
  moreover from assms(1) have "refs \<noteq> []" by auto
  ultimately show ?thesis by (simp add: aggregate_def jor_def)
qed

lemma message_task_rejected:
  "r (Gmail_messages_get, metadata_params (get m ''id'')) = Inl e \<Longrightarrow>
   \<exists>e'. snd (message_task r m) = Inl e'"
  by (simp add: message_task_def Let_def bindE_Inl)

lemma thread_task_rejected:
  "r (Gmail_threads_get, metadata_params (get t ''id'')) = Inl e \<Longrightarrow>
   \<exists>e'. snd (thread_task r t) = Inl e'"
  by (simp add: thread_task_def Let_def bindE_Inl)

lemma listMessages_rejected:
  assumes "r (Gmail_messages_list, query_params (dflt n (JNum 10)) (dflt q (JStr []))) = Inr data"
    and "get data ''messages'' = JArr refs"
    and "i < length refs" and "i \<in> set sched"
    and "r (Gmail_messages_get, metadata_params (get (refs ! i) ''id'')) = Inl e"
  shows "failed_without_output (top_level (listMessages r sched n q))"
proof -
  from message_task_rejected [of r "refs ! i" e, OF assms(5)] obtain e' where "snd (message_task r (refs ! i)) = Inl e'" ..
  from aggregate_rejected [where task = "message_task r", OF assms(3) this assms(4)]
    assms(1,2) nullish_get [OF assms(2)]
  show ?thesis by (simp add: listMessages_def)
qed

lemma listThreads_rejected:
  assumes "r (Gmail_threads_list, query_params (dflt n (JNum 10)) q) = Inr data"
    and "get data ''threads'' = JArr refs"
    and "i < length refs" and "i \<in> set sched"
    and "r (Gmail_threads_get, metadata_params (get (refs ! i) ''id'')) = Inl e"
  shows "failed_without_output (top_level (listThreads r sched q n))"
proof -
  from thread_task_rejected [of r "refs ! i" e, OF assms(5)] obtain e' where "snd (thread_task r (refs ! i)) = Inl e'" ..
  from aggregate_rejected [where task = "thread_task r", OF assms(3) this assms(4)]
    assms(1,2) nullish_get [OF assms(2)]
  show ?thesis by (simp add: listThreads_def)
qed

lemma searchMessages_listMessages: "searchMessages r sched q n = listMessages r sched n q"
  by (simp add: searchMessages_def listMessages_def dflt_dflt)

text \<open>
  C5. The enumeration returned the references \<open>refs\<close>, and the detail fetch of one of
  them, \<open>refs ! i\<close>, is rejected (and settles: \<open>i\<close> is in the schedule). Then the
  operation, be it \<open>list\<close>, \<open>search\<close> or \<open>threads\<close>, ends with the error reported,
  the status 1 and nothing printed: no list, not even a partial one.
\<close>

theorem all_or_nothing:
  assumes "i < length refs" and "i \<in> set sched"
  shows
    "(r (Gmail_messages_list, query_params (dflt n (JNum 10)) (dflt q (JStr []))) = Inr data \<longrightarrow>
      get data ''messages'' = JArr refs \<longrightarrow>
      r (Gmail_messages_get, metadata_params (get (refs ! i) ''id'')) = Inl e \<longrightarrow>
        failed_without_output (top_level (listMessages r sched n q)) \<and>
        failed_without_output (top_level (searchMessages r sched q n))) \<and>
     (r (Gmail_threads_list, query_params (dflt n (JNum 10)) q) = Inr data \<longrightarrow>
      get data ''threads'' = JArr refs \<longrightarrow>
      r (Gmail_threads_get, metadata_params (get (refs ! i) ''id'')) = Inl e \<longrightarrow>
        failed_without_output (top_level (listThreads r sched q n)))"
  using assms listMessages_rejected [of r n q data refs i sched e]
    listThreads_rejected [of r n q data refs i sched e]
  by (simp add: searchMessages_listMessages)

lemma map_refs_nth: "map f [a, b, c, d, e] ! 2 = f c"
  by simp

theorem all_or_nothing_witness:
  "broken_mailbox (Gmail_messages_get, metadata_params (JStr ''C'')) = Inl (Rejected ''Backend Error'') \<and>
   failed_without_output (top_level (listMessages broken_mailbox [4, 2, 0, 3, 1] JUndefined JUndefined)) \<and>
   failed_without_output (top_level (searchMessages broken_mailbox [4, 2, 0, 3, 1] JUndefined JUndefined)) \<and>
   failed_without_output (top_level (listThreads broken_mailbox [4, 2, 0, 3, 1] JUndefined JUndefined))"
proof -
  let ?ids = "[''A'', ''B'', ''C'', ''D'', ''E'']"
  have m: "broken_mailbox (Gmail_messages_list, query_params (dflt JUndefined (JNum 10)) (dflt JUndefined (JStr [])))
        = Inr (JObj [(''messages'', JArr (map mail_ref ?ids))])"
    by (simp add: broken_mailbox_def rejecting_def mailbox_def)
  have t: "broken_mailbox (Gmail_threads_list, query_params (dflt JUndefined (JNum 10)) JUndefined)
        = Inr (JObj [(''threads'', JArr (map thread_ref ?ids))])"
    by (simp add: broken_mailbox_def rejecting_def mailbox_def)
  have gm: "get (JObj [(''messages'', JArr (map mail_ref ?ids))]) ''messages'' = JArr (map mail_ref ?ids)"
    and gt: "get (JObj [(''threads'', JArr (map thread_ref ?ids))]) ''threads'' = JArr (map thread_ref ?ids)"
    by simp_all
  have fm: "broken_mailbox (Gmail_messages_get, metadata_params (get (map mail_ref ?ids ! 2) ''id''))
        = Inl (Rejected ''Backend Error'')"
    by (simp add: map_refs_nth mail_ref_def broken_mailbox_def rejecting_def)
  have ft: "broken_mailbox (Gmail_threads_get, metadata_params (get (map thread_ref ?ids ! 2) ''id''))
        = Inl (Rejected ''Backend Error'')"
    by (simp add: map_refs_nth thread_ref_def broken_mailbox_def rejecting_def)
  have i: "2 < length (map mail_ref ?ids)" "2 < length (map thread_ref ?ids)" "(2::nat) \<in> set [4, 2, 0, 3, 1]"
    by simp_all
  from all_or_nothing [OF i(1) i(3), of broken_mailbox JUndefined JUndefined _ "Rejected ''Backend Error''"] m gm fm
  have 1: "failed_without_output (top_level (listMessages broken_mailbox [4, 2, 0, 3, 1] JUndefined JUndefined)) \<and>
   failed_without_output (top_level (searchMessages broken_mailbox [4, 2, 0, 3, 1] JUndefined JUndefined))"
    by blast
  from all_or_nothing [OF i(2) i(3), of broken_mailbox JUndefined JUndefined _ "Rejected ''Backend Error''"] t gt ft
  have 2: "failed_without_output (top_level (listThreads broken_mailbox [4, 2, 0, 3, 1] JUndefined JUndefined))"
    by blast
  have 3: "broken_mailbox (Gmail_messages_get, metadata_params (JStr ''C'')) = Inl (Rejected ''Backend Error'')"
    by (simp add: broken_mailbox_def rejecting_def)
  from 1 2 3 show ?thesis by simp
qed

section \<open>The summary of a message\<close>

text \<open>
  C8 (as amended). Every summary that \<open>list\<close> or \<open>search\<close> prints has the five
  attributes \<open>id\<close> (of the enumerated reference), \<open>from\<close>, \<open>subject\<close>, \<open>date\<close>
  (the headers of the fetched item) and \<open>snippet\<close> (of the fetched item), in the order
  of the enumeration; it has no \<open>threadId\<close>.
\<close>

theorem summary_attributes:
  assumes "x = listMessages r sched n q \<or> x = searchMessages r sched q n"
    and "stdout x = [Json v]"
  shows "\<exists>data refs summaries.
           r (Gmail_messages_list, query_params (dflt n (JNum 10)) (dflt q (JStr []))) = Inr data \<and>
           get data ''messages'' = JArr refs \<and> v = JArr summaries \<and>
           length summaries = length refs \<and>
           (\<forall>i<length refs. \<exists>item from subject date.
              r (Gmail_messages_get, metadata_params (get (refs ! i) ''id'')) = Inr item \<and>
              getHeader (jor (optget (get item ''payload'') ''headers'') (JArr [])) ''From'' = Inr from \<and>
              getHeader (jor (optget (get item ''payload'') ''headers'') (JArr [])) ''Subject'' = Inr subject \<and>
              getHeader (jor (optget (get item ''payload'') ''headers'') (JArr [])) ''Date'' = Inr date \<and>
              summaries ! i =
                JObj [(''id'', get (refs ! i) ''id''), (''from'', from), (''subject'', subject),
                      (''date'', date), (''snippet'', get item ''snippet'')] \<and>
              get (summaries ! i) ''threadId'' = JUndefined)"
proof -
  from assms have "stdout (listMessages r sched n q) = [Json v]"
    by (auto simp: searchMessages_listMessages)
  from stdout_listMessages [OF this] obtain data ms vs where
    d: "r (Gmail_messages_list, query_params (dflt n (JNum 10)) (dflt q (JStr []))) = Inr data"
    "get data ''messages'' = JArr ms" "v = JArr vs" "length vs = length ms"
    and each: "\<forall>i<length ms. snd (message_task r (ms ! i)) = Inr (vs ! i)"
    by blast
  have "\<exists>item from subject date.
              r (Gmail_messages_get, metadata_params (get (ms ! i) ''id'')) = Inr item \<and>
              getHeader (jor (optget (get item ''payload'') ''headers'') (JArr [])) ''From'' = Inr from \<and>
              getHeader (jor (optget (get item ''payload'') ''headers'') (JArr [])) ''Subject'' = Inr subject \<and>
              getHeader (jor (optget (get item ''payload'') ''headers'') (JArr [])) ''Date'' = Inr date \<and>
              vs ! i =
                JObj [(''id'', get (ms ! i) ''id''), (''from'', from), (''subject'', subject),
                      (''date'', date), (''snippet'', get item ''snippet'')] \<and>
              get (vs ! i) ''threadId'' = JUndefined" if "i < length ms" for i
  proof -
    from each that have "snd (message_task r (ms ! i)) = Inr (vs ! i)" by simp
    from message_task_summary [OF this] show ?thesis by fastforce
  qed
  with d show ?thesis by blast
qed

lemma listMessages_one:
  "listMessages (mailbox [''A'']) [0] n q =
     \<lparr>calls = [(Gmail_messages_list, query_params (dflt n (JNum 10)) (dflt q (JStr []))),
               (Gmail_messages_get, metadata_params (JStr ''A''))],
      stdout = [Json (JArr [summary_of ''A''])],
      ending = Returned\<rparr>"
proof -
  let ?data = "JObj [(''messages'', JArr [mail_ref ''A''])]"
  have 1: "mailbox [''A''] (Gmail_messages_list, query_params (dflt n (JNum 10)) (dflt q (JStr []))) = Inr ?data"
    by (simp add: mailbox_def)
  have 2: "get ?data ''messages'' = JArr [mail_ref ''A'']" "[mail_ref ''A''] \<noteq> []"
    by simp_all
  have 3: "length [summary_of ''A''] = length [mail_ref ''A'']" by simp
  have 4: "\<And>i. i < length [mail_ref ''A''] \<Longrightarrow>
      snd (message_task (mailbox [''A'']) ([mail_ref ''A''] ! i)) = Inr ([summary_of ''A''] ! i)"
    by (simp add: task_mailbox)
  have 5: "set [0..<length [mail_ref ''A'']] \<subseteq> set [0::nat]" by simp
  from listMessages_fulfilled [OF 1 2 3 4 5]
  show ?thesis by (simp add: mail_ref_def)
qed

theorem summary_attributes_witness:
  "stdout (listMessages (mailbox [''A'']) [0] JUndefined JUndefined) = [Json (JArr [summary_of ''A''])] \<and>
   (\<exists>data refs summaries.
      mailbox [''A''] (Gmail_messages_list,
        query_params (dflt JUndefined (JNum 10)) (dflt JUndefined (JStr []))) = Inr data \<and>
      get data ''messages'' = JArr refs \<and> JArr [summary_of ''A''] = JArr summaries \<and>
      length summaries = length refs \<and>
      get (summaries ! 0) ''threadId'' = JUndefined)"
proof -
  have out: "stdout (listMessages (mailbox [''A'']) [0] JUndefined JUndefined) = [Json (JArr [summary_of ''A''])]"
    by (simp add: listMessages_one)
  from summary_attributes [of "listMessages (mailbox [''A'']) [0] JUndefined JUndefined"
      "mailbox [''A'']" "[0]" JUndefined JUndefined "JArr [summary_of ''A'']"] out
  obtain data refs summaries where
    "mailbox [''A''] (Gmail_messages_list,
        query_params (dflt JUndefined (JNum 10)) (dflt JUndefined (JStr []))) = Inr data"
    "get data ''messages'' = JArr refs" "JArr [summary_of ''A''] = JArr summaries"
    "length summaries = length refs"
    "\<forall>i<length refs. get (summaries ! i) ''threadId'' = JUndefined"
    by blast
  moreover from this have "0 < length refs" by auto
  ultimately show ?thesis using out by blast
qed

text \<open>
  The claim C8 as stated fails: the item the remote service returns for \<open>A\<close> has the
  thread \<open>thread-A\<close>, and the summary that \<open>list\<close> and \<open>search\<close> print has no
  \<open>threadId\<close>.
\<close>

theorem summary_without_threadId:
  "mailbox [''A''] (Gmail_messages_get, metadata_params (JStr ''A'')) = Inr (mail_item ''A'') \<and>
   get (mail_item ''A'') ''threadId'' = JStr ''thread-A'' \<and>
   printed (gmail_main id (mailbox [''A'']) [0] [''list'']) =
     [Json (JArr [JObj [(''id'', JStr ''A''),
                        (''from'', JStr ''alice@example.com''),
                        (''subject'', JStr ''subject A''),
                        (''date'', JStr ''Mon, 2 Nov 2026 09:00:00 +0000''),
                        (''snippet'', JStr ''snippet A'')]])] \<and>
   printed (gmail_main id (mailbox [''A'']) [0] [''search'', ''subject'']) =
     [Json (JArr [JObj [(''id'', JStr ''A''),
                        (''from'', JStr ''alice@example.com''),
                        (''subject'', JStr ''subject A''),
                        (''date'', JStr ''Mon, 2 Nov 2026 09:00:00 +0000''),
                        (''snippet'', JStr ''snippet A'')]])]"
  by (simp add: gmail_main_def arg_def searchMessages_def listMessages_one top_level_def
      summary_of_def mailbox_def requested_id_def metadata_params_def mail_item_def)

section \<open>Normalizing twice\<close>

lemma jor_idem: "jor (jor a b) b = jor a b"
  by (simp add: jor_def)

lemma attendee_view_again:
  "attendee_view a = Inr b \<Longrightarrow> attendee_view b = Inr b"
  by (auto simp: attendee_view_def split: if_splits)

lemma mapM_attendee_view_again:
  "mapM attendee_view xs = Inr ys \<Longrightarrow> mapM attendee_view ys = Inr ys"
proof (induction xs arbitrary: ys)
  case Nil
  then show ?case by simp
next
  case (Cons x xs)
  then obtain y ys' where "attendee_view x = Inr y" "mapM attendee_view xs = Inr ys'" "ys = y # ys'"
    by (auto split: sum.splits)
  with Cons.IH [of ys'] attendee_view_again [of x y] show ?case by simp
qed

lemma map_items_attendee_view_again:
  assumes "map_items attendee_view v = Inr w"
  shows "map_items attendee_view w = Inr w"
proof -
  from assms obtain xs ys where "jor v (JArr []) = JArr xs" "mapM attendee_view xs = Inr ys" "w = JArr ys"
    by (auto simp: map_items_def split: jsval.splits sum.splits)
  with mapM_attendee_view_again [of xs ys] show ?thesis
    by (simp add: map_items_def jor_def)
qed

lemma optget_not_object: "(case v of JObj _ \<Rightarrow> False | _ \<Rightarrow> True) \<Longrightarrow> optget v k = JUndefined"
  by (cases v) (simp_all add: optget_def)

lemma formatMessage_projection:
  assumes "formatMessage b64 msg = Inr q"
  shows "formatMessage b64 q = Inl TypeError"
proof -
  from assms obtain kvs where q: "q = JObj kvs" and keys: "map fst kvs = [''id'', ''threadId'', ''from'', ''to'', ''subject'', ''date'', ''snippet'', ''labels'', ''body'']"
    by (auto simp: formatMessage_def Let_def bindE_def split: if_splits sum.splits)
  then have "get q ''payload'' = JUndefined"
    by (auto simp: map_of_eq_None_iff split: option.splits)
  with q show ?thesis
    by (simp add: formatMessage_def optget_def jor_def getHeader_def bindE_def)
qed

text \<open>
  C7 (as amended). Normalizing the projection \<open>p\<close> of a calendar event once more gives
  a projection \<open>p'\<close> with the same \<open>id\<close>, \<open>summary\<close>, \<open>description\<close>,
  \<open>location\<close>, \<open>status\<close>, \<open>htmlLink\<close>, \<open>attendees\<close>, \<open>hangoutLink\<close> and
  \<open>recurringEventId\<close>. Where \<open>p\<close> holds anything but an object in \<open>start\<close> or in
  \<open>end\<close>, \<open>p'\<close> has the empty string there, and where \<open>p\<close> holds anything but an
  object in \<open>creator\<close>, \<open>p'\<close> has \<open>undefined\<close> there, since the normalizer looks for
  them one level down; nothing is said of a \<open>p\<close> that holds an object in one of the
  three. The projection of a mail message has no \<open>payload\<close>, and normalizing it throws.
\<close>

theorem renormalized_projection:
  "(formatEvent ev = Inr p \<longrightarrow>
      (\<exists>p'. formatEvent p = Inr p' \<and>
         list_all (\<lambda>k. get p' k = get p k)
           [''id'', ''summary'', ''description'', ''location'', ''status'', ''htmlLink'',
            ''attendees'', ''hangoutLink'', ''recurringEventId''] \<and>
         (case get p ''start'' of JObj _ \<Rightarrow> True | _ \<Rightarrow> get p' ''start'' = JStr []) \<and>
         (case get p ''end'' of JObj _ \<Rightarrow> True | _ \<Rightarrow> get p' ''end'' = JStr []) \<and>
         (case get p ''creator'' of JObj _ \<Rightarrow> True | _ \<Rightarrow> get p' ''creator'' = JUndefined))) \<and>
   (formatMessage b64 msg = Inr q \<longrightarrow> formatMessage b64 q = Inl TypeError)"
proof (intro conjI impI)
  assume "formatMessage b64 msg = Inr q"
  then show "formatMessage b64 q = Inl TypeError" by (rule formatMessage_projection)
next
  assume a: "formatEvent ev = Inr p"
  then obtain atts where atts: "map_items attendee_view (get ev ''attendees'') = Inr atts"
    and p: "p = JObj
          [(''id'', get ev ''id''),
           (''summary'', get ev ''summary''),
           (''description'', jor (get ev ''description'') (JStr [])),
           (''location'', jor (get ev ''location'') (JStr [])),
           (''start'', jor (jor (optget (get ev ''start'') ''dateTime'')
                                (optget (get ev ''start'') ''date'')) (JStr [])),
           (''end'', jor (jor (optget (get ev ''end'') ''dateTime'')
                              (optget (get ev ''end'') ''date'')) (JStr [])),
           (''status'', get ev ''status''),
           (''htmlLink'', get ev ''htmlLink''),
           (''creator'', optget (get ev ''creator'') ''email''),
           (''attendees'', atts),
           (''hangoutLink'', jor (get ev ''hangoutLink'') (JStr [])),
           (''recurringEventId'', jor (get ev ''recurringEventId'') (JStr []))]"
    by (auto simp: formatEvent_def bindE_def split: if_splits sum.splits)
  have again: "map_items attendee_view (get p ''attendees'') = Inr atts"
    using map_items_attendee_view_again [OF atts] p by simp
  let ?p' = "JObj
          [(''id'', get p ''id''),
           (''summary'', get p ''summary''),
           (''description'', jor (get p ''description'') (JStr [])),
           (''location'', jor (get p ''location'') (JStr [])),
           (''start'', jor (jor (optget (get p ''start'') ''dateTime'')
                                (optget (get p ''start'') ''date'')) (JStr [])),
           (''end'', jor (jor (optget (get p ''end'') ''dateTime'')
                              (optget (get p ''end'') ''date'')) (JStr [])),
           (''status'', get p ''status''),
           (''htmlLink'', get p ''htmlLink''),
           (''creator'', optget (get p ''creator'') ''email''),
           (''attendees'', atts),
           (''hangoutLink'', jor (get p ''hangoutLink'') (JStr [])),
           (''recurringEventId'', jor (get p ''recurringEventId'') (JStr []))]"
  have 1: "formatEvent p = Inr ?p'"
    using again p by (simp add: formatEvent_def bindE_def)
  have 2: "list_all (\<lambda>k. get ?p' k = get p k)
           [''id'', ''summary'', ''description'', ''location'', ''status'', ''htmlLink'',
            ''attendees'', ''hangoutLink'', ''recurringEventId'']"
    by (simp add: p jor_idem)
  have 3: "(case get p ''start'' of JObj _ \<Rightarrow> True | _ \<Rightarrow> get ?p' ''start'' = JStr [])"
    by (cases "get p ''start''") (simp_all add: optget_def jor_def)
  have 4: "(case get p ''end'' of JObj _ \<Rightarrow> True | _ \<Rightarrow> get ?p' ''end'' = JStr [])"
    by (cases "get p ''end''") (simp_all add: optget_def jor_def)
  have 5: "(case get p ''creator'' of JObj _ \<Rightarrow> True | _ \<Rightarrow> get ?p' ''creator'' = JUndefined)"
    by (cases "get p ''creator''") (simp_all add: optget_def)
  from 1 2 3 4 5 show "\<exists>p'. formatEvent p = Inr p' \<and>
         list_all (\<lambda>k. get p' k = get p k)
           [''id'', ''summary'', ''description'', ''location'', ''status'', ''htmlLink'',
            ''attendees'', ''hangoutLink'', ''recurringEventId''] \<and>
         (case get p ''start'' of JObj _ \<Rightarrow> True | _ \<Rightarrow> get p' ''start'' = JStr []) \<and>
         (case get p ''end'' of JObj _ \<Rightarrow> True | _ \<Rightarrow> get p' ''end'' = JStr []) \<and>
         (case get p ''creator'' of JObj _ \<Rightarrow> True | _ \<Rightarrow> get p' ''creator'' = JUndefined)"
    by blast
qed

theorem renormalized_projection_witness:
  "formatEvent raw_event = Inr event_projection \<and>
   formatMessage id (mail_item ''A'') = Inr message_projection \<and>
   (\<exists>p'. formatEvent event_projection = Inr p' \<and>
      list_all (\<lambda>k. get p' k = get event_projection k)
        [''id'', ''summary'', ''description'', ''location'', ''status'', ''htmlLink'',
         ''attendees'', ''hangoutLink'', ''recurringEventId''] \<and>
      get p' ''start'' = JStr [] \<and> get p' ''end'' = JStr [] \<and> get p' ''creator'' = JUndefined) \<and>
   formatMessage id message_projection = Inl TypeError"
proof -
  have 1: "formatEvent raw_event = Inr event_projection"
    by (simp add: formatEvent_def raw_event_def event_projection_def map_items_def
        attendee_view_def bindE_def jor_def optget_def)
  have 2: "formatMessage id (mail_item ''A'') = Inr message_projection"
    by (simp add: formatMessage_def mail_item_def message_projection_def getHeader_def
        header_def toLowerCase_def lower_char_def has_data_def decodeBase64Url_def
        url_to_std_def bindE_def jor_def optget_def)
  have 3: "get event_projection ''start'' = JStr ''2026-02-10T10:00:00-08:00''"
    "get event_projection ''end'' = JStr ''2026-02-10T11:00:00-08:00''"
    "get event_projection ''creator'' = JStr ''me@example.com''"
    by (simp_all add: event_projection_def)
  from renormalized_projection [of raw_event event_projection id "mail_item ''A''" message_projection]
    1 2 3 show ?thesis by simp
qed

text \<open>
  The claim C7 as stated fails: the second normalization of an event differs from the
  first, and the second normalization of a message throws.
\<close>

theorem second_normalization_differs:
  "formatEvent raw_event = Inr event_projection \<and>
   formatEvent event_projection = Inr event_reprojection \<and>
   event_reprojection \<noteq> event_projection \<and>
   formatMessage id (mail_item ''A'') = Inr message_projection \<and>
   formatMessage id message_projection = Inl TypeError"
  by (simp add: formatEvent_def raw_event_def event_projection_def event_reprojection_def
      map_items_def attendee_view_def bindE_def jor_def optget_def
      formatMessage_def mail_item_def message_projection_def getHeader_def header_def
      toLowerCase_def lower_char_def has_data_def decodeBase64Url_def url_to_std_def)

section \<open>Search is list\<close>

text \<open>
  C10. \<open>searchMessages\<close> with a query and a count is \<open>listMessages\<close> with the count
  and the query: the same requests, the same output and the same end, whatever the
  remote service answers and in whatever order the fetches settle, also when the count
  is left out. And the command \<open>search query count\<close> of the script gives what
  \<open>list count query\<close> gives (the dispatch lets \<open>search\<close> through only with a query
  that is not empty).
\<close>

theorem search_is_list_swapped:
  "searchMessages r sched q n = listMessages r sched n q \<and>
   (query \<noteq> [] \<longrightarrow>
      gmail_main b64 r sched [''search'', query, count] =
      gmail_main b64 r sched [''list'', count, query])"
  by (simp add: searchMessages_def listMessages_def dflt_dflt gmail_main_def arg_def)

theorem search_is_list_swapped_witness:
  "''is:unread'' \<noteq> [] \<and>
   searchMessages (mailbox [''A'']) [0] (JStr ''is:unread'') (JStr ''5'')
     = listMessages (mailbox [''A'']) [0] (JStr ''5'') (JStr ''is:unread'') \<and>
   gmail_main id (mailbox [''A'']) [0] [''search'', ''is:unread'', ''5'']
     = gmail_main id (mailbox [''A'']) [0] [''list'', ''5'', ''is:unread''] \<and>
   requests (gmail_main id (mailbox [''A'']) [0] [''list'', ''5'', ''is:unread'']) =
     [(Gmail_messages_list,
       [(''userId'', PVal (JStr ''me'')), (''maxResults'', PNum (Some 5)),
        (''q'', PVal (JStr ''is:unread''))]),
      (Gmail_messages_get, metadata_params (JStr ''A''))]"
proof -
  have "parseInt (JStr ''5'') = Some 5"
    by (simp add: parseInt_def is_space_def parse_digits_def is_digit_def digits_value_def)
  then have "requests (gmail_main id (mailbox [''A'']) [0] [''list'', ''5'', ''is:unread'']) =
     [(Gmail_messages_list,
       [(''userId'', PVal (JStr ''me'')), (''maxResults'', PNum (Some 5)),
        (''q'', PVal (JStr ''is:unread''))]),
      (Gmail_messages_get, metadata_params (JStr ''A''))]"
    by (simp add: gmail_main_def arg_def requests_top_level listMessages_def dflt_def
        query_params_def mailbox_def calls_aggregate jor_def issued_def task_mailbox)
  with search_is_list_swapped
    [of "mailbox [''A'']" "[0]" "JStr ''is:unread''" "JStr ''5''" "''is:unread''" id "''5''"]
  show ?thesis by simp
qed

section \<open>Missing arguments\<close>

text \<open>
  C3. \<open>gmail.js threads\<close> with no query: the run starts with the request that
  enumerates the threads (with no \<open>q\<close>), whatever the remote service answers; no usage
  message ends the run before it, as one does for \<open>search\<close> and \<open>read\<close>
  (\<open>search_without_query\<close>, \<open>read_without_id\<close>) and for the commands of the other
  two scripts that require an argument.
\<close>

theorem threads_without_query:
  "\<exists>rest. requests (gmail_main b64 r sched [''threads'']) =
     (Gmail_threads_list, [(''userId'', PVal (JStr ''me'')), (''maxResults'', PNum (Some 10))]) # rest"
  by (auto simp: gmail_main_def arg_def requests_top_level listThreads_def dflt_def Let_def
      query_params_def parseInt_def threw_def calls_aggregate split: sum.splits)

lemma threads_of_empty_mailbox:
  "gmail_main id (mailbox []) [] [''threads''] =
     \<lparr>requests = [(Gmail_threads_list,
                    [(''userId'', PVal (JStr ''me'')), (''maxResults'', PNum (Some 10))])],
      printed = [Text ''No threads found.''], stderr = [], status = Exit 0\<rparr>"
  by (simp add: gmail_main_def arg_def listThreads_def dflt_def query_params_def parseInt_def
      mailbox_def aggregate_def jor_def top_level_def returned_def)

lemma search_without_query:
  "gmail_main b64 r sched [''search''] = usage [''Usage: gmail.js search <query> [maxResults]'']"
  by (simp add: gmail_main_def arg_def)

lemma read_without_id:
  "gmail_main b64 r sched [''read''] = usage [''Usage: gmail.js read <messageId>'']"
  by (simp add: gmail_main_def arg_def)

lemma calendar_required_arguments:
  "calendar_main w [''get''] = usage [''Usage: calendar.js get <eventId> [calendarId]'']"
  "calendar_main w [''search''] =
     usage [''Usage: calendar.js search <query> [maxResults] [calendarId]'']"
  "calendar_main w [''create''] = usage [''Usage: calendar.js create <jsonFile|-> [calendarId]'']"
  "calendar_main w [''quick''] = usage [''Usage: calendar.js quick \"<text>\" [calendarId]'']"
  "calendar_main w [''update''] =
     usage [''Usage: calendar.js update <eventId> <jsonFile|-> [calendarId]'']"
  "calendar_main w [''update'', ''e1''] =
     usage [''Usage: calendar.js update <eventId> <jsonFile|-> [calendarId]'']"
  by (simp_all add: calendar_main_def arg_def)

lemma sheets_required_arguments:
  "sheets_main r [''read''] =
     usage [''Usage: sheets.js read <spreadsheetId> [range]'',
            ''  range example: \"Sheet1!A1:D10\"'']"
  "sheets_main r [''info''] = usage [''Usage: sheets.js info <spreadsheetId>'']"
  "sheets_main r [''search''] = usage [''Usage: sheets.js search <query> [maxResults]'']"
  by (simp_all add: sheets_main_def arg_def)

section \<open>The body of a message\<close>

text \<open>
  C6. A multi-part payload whose first part is the rich text and whose second part is
  the plain text: \<open>extractBody\<close> returns the tagged rich text, whatever the decoder,
  since the loop over the parts takes the first part that gives any text, the fallback
  of a part included.
\<close>

theorem html_part_before_plain_part:
  "extractBody b64
     (JObj [(''mimeType'', JStr ''multipart/alternative''),
            (''parts'',
             JArr [JObj [(''mimeType'', JStr ''text/html''),
                         (''body'', JObj [(''data'', JStr ''PGI-aGk8L2I-'')])],
                   JObj [(''mimeType'', JStr ''text/plain''),
                         (''body'', JObj [(''data'', JStr ''aGk'')])]])])
   = Inr (''[HTML] '' @ take 2000 (b64 ''PGI+aGk8L2I+''))"
  by (simp add: has_data_def optget_def decodeBase64Url_def url_to_std_def)

lemma plain_part_first:
  "extractBody b64
     (JObj [(''mimeType'', JStr ''multipart/alternative''),
            (''parts'',
             JArr [JObj [(''mimeType'', JStr ''text/plain''),
                         (''body'', JObj [(''data'', JStr ''aGk'')])],
                   JObj [(''mimeType'', JStr ''text/html''),
                         (''body'', JObj [(''data'', JStr ''PGI-aGk8L2I-'')])]])])
   = Inr (if b64 ''aGk'' \<noteq> [] then b64 ''aGk'' else ''[HTML] '' @ take 2000 (b64 ''PGI+aGk8L2I+''))"
  by (simp add: has_data_def optget_def decodeBase64Url_def url_to_std_def)

lemma plain_body_preferred:
  assumes "has_data payload ''text/plain''" and "get (get payload ''body'') ''data'' = JStr s"
  shows "extractBody b64 payload = Inr (b64 (map url_to_std s))"
proof -
  from assms(1) have "\<not> nullish payload" by (cases payload) (simp_all add: has_data_def)
  moreover from assms have "truthy (JStr s)" by (auto simp: has_data_def optget_def split: if_splits)
  ultimately show ?thesis using assms by (simp add: decodeBase64Url_def)
qed

lemma html_fallback_tagged:
  assumes "has_data payload ''text/html''" and "\<not> truthy (get payload ''parts'')"
    and "get (get payload ''body'') ''data'' = JStr s"
  shows "extractBody b64 payload = Inr (''[HTML] '' @ take 2000 (b64 (map url_to_std s)))"
proof -
  from assms(1) have "\<not> nullish payload" by (cases payload) (simp_all add: has_data_def)
  moreover from assms have "truthy (JStr s)" by (auto simp: has_data_def optget_def split: if_splits)
  moreover from assms(1) have "\<not> has_data payload ''text/plain''" by (simp add: has_data_def)
  ultimately show ?thesis using assms by (simp add: decodeBase64Url_def)
qed

end
